theory Spec2Isabelle
  imports Main
begin

section \<open>The curl download backend of opkg (libopkg/opkg\_download\_curl.c)\<close>

text \<open>
  The file under study decides, before any body byte is fetched, whether a cached file can
  be reused, resumed or has to be fetched again. It keeps the remote identity marker (the
  ETag) of a cached file in a stamp file beside it, compares that stamp in blocks of ten
  bytes, and reads the remote size from a header-only request.

  The embedding follows the C text function by function. What the C code reaches through
  libc and libcurl is made explicit:
  \<^item> the file system is a map from paths to the bytes of regular files;
  \<^item> the calls whose result the source tests (\<^verbatim>\<open>fopen\<close>, \<^verbatim>\<open>fread\<close> with
    \<^verbatim>\<open>ferror\<close>, \<^verbatim>\<open>fclose\<close> in the stamp check, \<^verbatim>\<open>curl_easy_perform\<close>) can fail,
    as the environment says; the calls whose result the source ignores (\<^verbatim>\<open>unlink\<close>,
    \<^verbatim>\<open>fwrite\<close>, \<^verbatim>\<open>fseek\<close>, \<^verbatim>\<open>ftell\<close>, \<^verbatim>\<open>curl_easy_setopt\<close>) take effect;
  \<^item> a \<^verbatim>\<open>char *\<close> that the code only hands to string functions is the string it
    points to; the one pointer the code advances itself (\<^verbatim>\<open>stamp\<close> in
    \<^verbatim>\<open>check_file_stamp\<close>) is the list of bytes readable from it, terminator and
    whatever follows it in memory included, and a read past that list is an outcome of
    its own;
  \<^item> lengths and offsets are integers without bound: the model covers files and markers
    whose lengths fit the \<^verbatim>\<open>int\<close> and \<^verbatim>\<open>long\<close> that hold them; where the code
    converts an offset to \<^verbatim>\<open>double\<close> the model rounds as the conversion does.
\<close>

subsection \<open>Bytes and C strings\<close>

definition NUL :: char where
  "NUL = CHR 0x00"

definition newline :: char where
  "newline = CHR 0x0A"

definition dquote :: char where
  "dquote = CHR 0x22"

text \<open>\<^verbatim>\<open>tolower\<close> in the C locale.\<close>

definition tolower :: "char \<Rightarrow> char" where
  "tolower c =
     (case map_of (zip ''ABCDEFGHIJKLMNOPQRSTUVWXYZ'' ''abcdefghijklmnopqrstuvwxyz'') c of
        Some l \<Rightarrow> l
      | None \<Rightarrow> c)"

text \<open>The characters of the C string that starts a byte sequence: all before the first NUL.\<close>

definition cstr :: "string \<Rightarrow> string" where
  "cstr bs = takeWhile (\<lambda>c. c \<noteq> NUL) bs"

text \<open>
  \<^verbatim>\<open>strchr\<close> and \<^verbatim>\<open>strrchr\<close> as the offset of the first and of the last occurrence,
  \<open>None\<close> for the NULL result.
\<close>

definition strchr :: "string \<Rightarrow> char \<Rightarrow> nat option" where
  "strchr s c =
     (if c \<in> set (cstr s) then Some (length (takeWhile (\<lambda>x. x \<noteq> c) (cstr s))) else None)"

definition strrchr :: "string \<Rightarrow> char \<Rightarrow> nat option" where
  "strrchr s c =
     (if c \<in> set (cstr s)
      then Some (length (cstr s) - 1 - length (takeWhile (\<lambda>x. x \<noteq> c) (rev (cstr s))))
      else None)"

text \<open>
  A pointer the code does arithmetic on is the list of bytes readable from it.
  \<^verbatim>\<open>strlen\<close> on such a region needs a terminator inside it.
\<close>

datatype 'a outcome = Returns 'a | Overread

definition strlen :: "string \<Rightarrow> nat option" where
  "strlen region = (if NUL \<in> set region then Some (length (cstr region)) else None)"

text \<open>\<^verbatim>\<open>memcmp(a, b, n) != 0\<close>.\<close>

definition memcmp_differs :: "string \<Rightarrow> string \<Rightarrow> nat \<Rightarrow> bool" where
  "memcmp_differs a b n = (take n a \<noteq> take n b)"

subsection \<open>The transport handle and the environment\<close>

type_synonym path = string

datatype write_cb = DefaultWrite | DummyWrite

datatype header_cb = NoHeaderCb | HeaderWrite

datatype header_data = NoHeaderData | EtagVar

text \<open>
  The options of the libcurl easy handle that this file sets after initialisation.
  \<open>DefaultWrite\<close>, \<open>NoHeaderCb\<close> and \<open>NoHeaderData\<close> stand for NULL, \<open>DummyWrite\<close>
  for \<^verbatim>\<open>&dummy_write\<close>, \<open>HeaderWrite\<close> for \<^verbatim>\<open>&header_write\<close>, \<open>EtagVar\<close> for the
  address of the validator's local \<^verbatim>\<open>etag\<close>. \<open>opt_writedata\<close> is the file the
  \<^verbatim>\<open>FILE *\<close> was opened on.
\<close>

record curl_handle =
  opt_url :: string
  opt_writefunction :: write_cb
  opt_headerfunction :: header_cb
  opt_writeheader :: header_data
  opt_header :: int
  opt_nobody :: int
  opt_resume_from :: int
  opt_writedata :: "path option"

text \<open>
  What one \<^verbatim>\<open>curl_easy_perform\<close> meets on the network. \<open>content_length\<close> is the
  whole number held by the double that \<^verbatim>\<open>CURLINFO_CONTENT_LENGTH_DOWNLOAD\<close> yields, -1
  when the size is unknown.
\<close>

record reply =
  rc :: nat
  detail :: string
  header_lines :: "string list"
  content_length :: int
  body :: string

text \<open>
  The environment: the remote side as a function of the request, libcurl's generic
  error texts, the bytes that follow the marker's terminator in the heap, whether
  \<^verbatim>\<open>curl_easy_init\<close> (or, in a TLS build, the engine set-up) fails, whether explicit FTP
  over TLS is configured, and which file operations fail.
  \<open>read_fault p = Some k\<close> says that the device fails after \<open>k\<close> bytes of \<open>p\<close>.
\<close>

record env =
  transport :: "curl_handle \<Rightarrow> reply"
  curl_easy_strerror :: "nat \<Rightarrow> string"
  heap_slack :: string
  init_fails :: bool
  ftp_explicit_ssl :: bool
  no_read :: "path set"
  no_write :: "path set"
  close_fails :: "path set"
  read_fault :: "path \<rightharpoonup> nat"

datatype message_level = ERROR | DEBUG

text \<open>
  The program's state: the files, the two statics \<^verbatim>\<open>curl\<close> and
  \<^verbatim>\<open>curl_errorbuffer\<close>, what \<^verbatim>\<open>curl_easy_getinfo\<close> would report for the last
  transfer, the messages logged, and the requests performed (the handle as it was at
  each \<^verbatim>\<open>curl_easy_perform\<close>).
\<close>

record world =
  files :: "path \<rightharpoonup> string"
  curl :: "curl_handle option"
  curl_errorbuffer :: string
  info_content_length :: int
  msgs :: "(message_level \<times> string) list"
  requests :: "curl_handle list"

definition CURLE_OK :: nat where
  "CURLE_OK = 0"

definition CURLE_BAD_FUNCTION_ARGUMENT :: nat where
  "CURLE_BAD_FUNCTION_ARGUMENT = 43"

text \<open>
  Modelled from the spec: \<^verbatim>\<open>opkg_msg\<close> is a macro of opkg\_message.h, which is not
  among the sources. Every failure path produces one descriptive log line; the model
  records the level and the formatted text.
\<close>

definition opkg_msg :: "message_level \<Rightarrow> string \<Rightarrow> world \<Rightarrow> world" where
  "opkg_msg l txt w = w\<lparr>msgs := msgs w @ [(l, txt)]\<rparr>"

text \<open>
  Modelled from the spec: \<^verbatim>\<open>file_exists\<close> is declared in file\_util.h, which is not
  among the sources; a file exists when the path names one.
\<close>

definition file_exists :: "path \<Rightarrow> world \<Rightarrow> bool" where
  "file_exists p w = (files w p \<noteq> None)"

text \<open>
  Modelled from the spec: \<^verbatim>\<open>str_starts_with\<close> is declared in opkg\_utils.h, which is
  not among the sources.
\<close>

definition str_starts_with :: "string \<Rightarrow> string \<Rightarrow> bool" where
  "str_starts_with s pre = (take (length pre) s = pre)"

definition unlink :: "path \<Rightarrow> world \<Rightarrow> world" where
  "unlink p w = w\<lparr>files := (files w)(p := None)\<rparr>"

definition setopt :: "(curl_handle \<Rightarrow> curl_handle) \<Rightarrow> world \<Rightarrow> world" where
  "setopt f w = w\<lparr>curl := map_option f (curl w)\<rparr>"

subsection \<open>Header callback\<close>

text \<open>
  \<^verbatim>\<open>header_write\<close> (lines 64-78), as a function from the header line and the current
  value of \<^verbatim>\<open>*userdata\<close> to its new value. The line has \<^verbatim>\<open>size * nmemb\<close> bytes.
  A line of fewer than five bytes leaves the rest of \<^verbatim>\<open>prefix\<close> unset; the model takes
  such a line not to start with the field name. Without a quote \<^verbatim>\<open>start\<close> is
  \<^verbatim>\<open>NULL + 1\<close> and \<^verbatim>\<open>end\<close> is NULL, so \<^verbatim>\<open>end > start\<close> fails.
\<close>

definition header_write :: "string \<Rightarrow> string option \<Rightarrow> string option" where
  "header_write ptr out =
     (let prefix = map tolower (take 5 ptr) in
      if str_starts_with prefix ''etag:'' then
        (case (strchr ptr dquote, strrchr ptr dquote) of
           (Some q, Some endq) \<Rightarrow>
             (let start = q + 1 in
              if endq > start then Some (take (endq - start) (drop start (cstr ptr))) else out)
         | _ \<Rightarrow> out)
      else out)"

subsection \<open>Error message composition\<close>

text \<open>
  The text that \<^verbatim>\<open>log_curl_download_error\<close> (lines 94-109) hands to \<^verbatim>\<open>opkg_msg\<close>
  with the format \<^verbatim>\<open>"%s %s: %s%s"\<close>.
\<close>

definition curl_download_error_text :: "env \<Rightarrow> string \<Rightarrow> string \<Rightarrow> nat \<Rightarrow> world \<Rightarrow> string" where
  "curl_download_error_text env msg src_url res w =
     (let curl_err_len = length (curl_errorbuffer w);
          curl_err_msg = (if curl_err_len \<noteq> 0 then curl_errorbuffer w
                          else curl_easy_strerror env res);
          has_trailing_newline =
            (curl_err_len \<noteq> 0 \<and> curl_err_msg ! (curl_err_len - 1) = newline)
      in msg @ '' '' @ src_url @ '': '' @ curl_err_msg
           @ (if has_trailing_newline then [] else [newline]))"

definition log_curl_download_error :: "env \<Rightarrow> string \<Rightarrow> string \<Rightarrow> nat \<Rightarrow> world \<Rightarrow> world" where
  "log_curl_download_error env msg src_url res w =
     opkg_msg ERROR (curl_download_error_text env msg src_url res w) w"

subsection \<open>Performing a request\<close>

definition fappend :: "path \<Rightarrow> string \<Rightarrow> (path \<rightharpoonup> string) \<Rightarrow> (path \<rightharpoonup> string)" where
  "fappend p bs fs = fs(p \<mapsto> (case fs p of None \<Rightarrow> bs | Some c \<Rightarrow> c @ bs))"

text \<open>
  \<^verbatim>\<open>curl_easy_perform\<close>, with the validator's local \<^verbatim>\<open>etag\<close> passed in and out.
  Each header line goes to the header callback when one is set; the write callback gets
  the header lines when \<^verbatim>\<open>CURLOPT_HEADER\<close> is set and the body unless
  \<^verbatim>\<open>CURLOPT_NOBODY\<close> is; the default write callback appends to the file of
  \<^verbatim>\<open>CURLOPT_WRITEDATA\<close>. On failure libcurl leaves its detail in the error buffer.
\<close>

definition curl_easy_perform :: "env \<Rightarrow> string option \<Rightarrow> world \<Rightarrow> nat \<times> string option \<times> world" where
  "curl_easy_perform env etag w =
     (case curl w of
        None \<Rightarrow> (CURLE_BAD_FUNCTION_ARGUMENT, etag, w)
      | Some h \<Rightarrow>
          (let r = transport env h;
               etag' = (if opt_headerfunction h = HeaderWrite \<and> opt_writeheader h = EtagVar
                        then foldl (\<lambda>e ln. header_write ln e) etag (header_lines r)
                        else etag);
               delivered = (if opt_header h \<noteq> 0 then concat (header_lines r) else [])
                             @ (if opt_nobody h \<noteq> 0 then [] else body r);
               files' = (case (opt_writefunction h, opt_writedata h) of
                           (DefaultWrite, Some p) \<Rightarrow> fappend p delivered (files w)
                         | _ \<Rightarrow> files w)
           in (rc r, etag',
               w\<lparr>files := files',
                 curl_errorbuffer := (if rc r \<noteq> CURLE_OK then detail r else curl_errorbuffer w),
                 info_content_length := content_length r,
                 requests := requests w @ [h]\<rparr>)))"

text \<open>\<^verbatim>\<open>perform_curl_request\<close> (lines 119-123).\<close>

definition perform_curl_request :: "env \<Rightarrow> string option \<Rightarrow> world \<Rightarrow> nat \<times> string option \<times> world" where
  "perform_curl_request env etag w = curl_easy_perform env etag (w\<lparr>curl_errorbuffer := []\<rparr>)"

subsection \<open>The stamp store\<close>

definition STAMP_BUF_SIZE :: nat where
  "STAMP_BUF_SIZE = 10"

definition stamp_path :: "path \<Rightarrow> path" where
  "stamp_path file_name = file_name @ ''.@stamp''"

text \<open>\<^verbatim>\<open>create_file_stamp\<close> (lines 183-199).\<close>

definition create_file_stamp :: "env \<Rightarrow> path \<Rightarrow> string \<Rightarrow> world \<Rightarrow> int \<times> world" where
  "create_file_stamp env file_name stamp w =
     (let file_path = stamp_path file_name in
      if file_path \<in> no_write env
      then (- 1, opkg_msg ERROR (''Failed to open file '' @ file_path @ [newline]) w)
      else (0, w\<lparr>files := (files w)(file_path \<mapsto> cstr stamp)\<rparr>))"

text \<open>
  An open read stream: the bytes not yet read, and how many of them the device still
  delivers (\<open>None\<close>: all). \<open>fread n\<close> gives the block read, the stream's error flag
  after the call, and the stream.
\<close>

record rstream =
  unread :: string
  good :: "nat option"

definition fread :: "nat \<Rightarrow> rstream \<Rightarrow> string \<times> bool \<times> rstream" where
  "fread n s =
     (let want = min n (length (unread s));
          got = (case good s of None \<Rightarrow> want | Some g \<Rightarrow> min want g)
      in (take got (unread s), got < want,
          \<lparr>unread = drop got (unread s), good = map_option (\<lambda>g. g - got) (good s)\<rparr>))"

text \<open>
  The loop of \<^verbatim>\<open>check_file_stamp\<close> (lines 229-242). \<open>stamp\<close> is the region readable
  from the pointer; \<^verbatim>\<open>stamp += STAMP_BUF_SIZE\<close> moves ten bytes on whatever the length
  of the block just compared, and the loop condition then reads \<^verbatim>\<open>*stamp\<close> there.
  The disjunction is evaluated left to right, so \<^verbatim>\<open>memcmp\<close> runs only on \<open>size\<close>
  bytes that the candidate has.
\<close>

function stamp_loop :: "rstream \<Rightarrow> string \<Rightarrow> int \<Rightarrow> int outcome" where
  "stamp_loop f stamp diff =
     (case stamp of
        [] \<Rightarrow> Overread
      | c # _ \<Rightarrow>
          if c = NUL then Returns diff
          else
            (case fread STAMP_BUF_SIZE f of
               (stamp_buf, ferr, f') \<Rightarrow>
                 (let size = length stamp_buf in
                  if size = 0 \<and> ferr then Returns (- 1)
                  else
                    (case strlen stamp of
                       None \<Rightarrow> Overread
                     | Some n \<Rightarrow>
                         if (size < STAMP_BUF_SIZE \<and> size \<noteq> n)
                            \<or> (size = STAMP_BUF_SIZE \<and> n < STAMP_BUF_SIZE)
                            \<or> memcmp_differs stamp_buf stamp size
                         then Returns 1
                         else stamp_loop f' (drop STAMP_BUF_SIZE stamp) 0))))"
  by pat_completeness auto
termination
  by (relation "measure (\<lambda>(f, stamp, diff). length stamp)") (auto simp: STAMP_BUF_SIZE_def)

definition fopen_rb :: "env \<Rightarrow> path \<Rightarrow> world \<Rightarrow> rstream option" where
  "fopen_rb env p w =
     (if p \<in> no_read env then None
      else map_option (\<lambda>content. \<lparr>unread = content, good = read_fault env p\<rparr>) (files w p))"

text \<open>
  \<^verbatim>\<open>check_file_stamp\<close> (lines 209-249). The result is the value of \<^verbatim>\<open>diff\<close>: 0 for
  a match, 1 for a mismatch found by the comparison, -1 when the stamp file is missing
  or cannot be opened or read.
\<close>

definition check_file_stamp :: "env \<Rightarrow> path \<Rightarrow> string \<Rightarrow> world \<Rightarrow> (int \<times> world) outcome" where
  "check_file_stamp env file_name stamp w =
     (let file_path = stamp_path file_name in
      if \<not> file_exists file_path w then Returns (- 1, w)
      else
        (case fopen_rb env file_path w of
           None \<Rightarrow>
             Returns (- 1, opkg_msg ERROR (''Failed to open file '' @ file_path @ [newline]) w)
         | Some f \<Rightarrow>
             (case stamp_loop f stamp 0 of
                Overread \<Rightarrow> Overread
              | Returns diff \<Rightarrow>
                  (let w1 = (if diff = - 1
                             then opkg_msg ERROR
                                    (''Failed to read from file '' @ file_path @ [newline]) w
                             else w);
                       w2 = (if file_path \<in> close_fails env
                             then opkg_msg ERROR
                                    (''Failed to close file '' @ file_path @ [newline]) w1
                             else w1)
                   in Returns (diff, w2)))))"

subsection \<open>The cache validator\<close>

text \<open>
  \<^verbatim>\<open>fopen(p, "ab")\<close>: fails where the environment says so, creates the file when it
  is absent, and leaves an existing file as it is.
\<close>

definition fopen_ab :: "env \<Rightarrow> path \<Rightarrow> world \<Rightarrow> world option" where
  "fopen_ab env p w =
     (if p \<in> no_write env then None else Some (w\<lparr>files := fappend p [] (files w)\<rparr>))"

text \<open>\<^verbatim>\<open>fseek(file, 0, SEEK_END); ftell(file)\<close>.\<close>

definition ftell_end :: "path \<Rightarrow> world \<Rightarrow> int" where
  "ftell_end p w = (case files w p of None \<Rightarrow> 0 | Some content \<Rightarrow> int (length content))"

text \<open>
  Lines 283-289 of \<^verbatim>\<open>opkg_validate_cached_file\<close>: the value of \<^verbatim>\<open>match\<close> and the
  state. The marker was allocated by \<^verbatim>\<open>strndup\<close>; \<^verbatim>\<open>check_file_stamp\<close> gets the
  pointer to it, so the region it can read is the marker, its terminator and the heap
  bytes behind it.
\<close>

definition validate_stale_check ::
    "env \<Rightarrow> path \<Rightarrow> string option \<Rightarrow> world \<Rightarrow> (int \<times> world) outcome" where
  "validate_stale_check env cache_location etag w =
     (if file_exists cache_location w then
        (case etag of
           None \<Rightarrow> Returns (0, unlink cache_location w)
         | Some e \<Rightarrow>
             (case check_file_stamp env cache_location (e @ NUL # heap_slack env) w of
                Overread \<Rightarrow> Overread
              | Returns (d, w') \<Rightarrow>
                  if d = 0 then Returns (1, w') else Returns (0, unlink cache_location w')))
      else Returns (0, w))"

text \<open>
  The condition of lines 284-285 under which \<^verbatim>\<open>match\<close> becomes 1: the cache file
  exists, a marker was obtained and the stamp check returns 0.
\<close>

definition cache_fresh :: "env \<Rightarrow> path \<Rightarrow> string option \<Rightarrow> world \<Rightarrow> bool" where
  "cache_fresh env cache_location etag w =
     (file_exists cache_location w
      \<and> (case etag of
            None \<Rightarrow> False
          | Some e \<Rightarrow>
              (case check_file_stamp env cache_location (e @ NUL # heap_slack env) w of
                 Returns (d, w') \<Rightarrow> d = 0
               | Overread \<Rightarrow> False)))"

text \<open>
  The local length that the resume arithmetic works on: the length of the cache file
  when the cache is fresh, and 0 when there is no file or it is discarded as stale.
\<close>

definition resume_length :: "env \<Rightarrow> path \<Rightarrow> string option \<Rightarrow> world \<Rightarrow> int" where
  "resume_length env cache_location etag w =
     (if cache_fresh env cache_location etag w then ftell_end cache_location w else 0)"

text \<open>
  Enough readable memory behind the marker for the pointer of the stamp check: at least
  nine bytes behind the terminator, with a zero byte after the first eight.
\<close>

definition marker_slack_readable :: "env \<Rightarrow> bool" where
  "marker_slack_readable env = (NUL \<in> set (drop 8 (heap_slack env)))"

text \<open>Lines 290-294.\<close>

definition validate_stamp_write :: "env \<Rightarrow> path \<Rightarrow> string option \<Rightarrow> int \<Rightarrow> world \<Rightarrow> world" where
  "validate_stamp_write env cache_location etag match w =
     (case etag of
        None \<Rightarrow> w
      | Some e \<Rightarrow>
          if match = 0 then
            (case create_file_stamp env cache_location e w of
               (r, w') \<Rightarrow>
                 if r \<noteq> 0
                 then opkg_msg ERROR
                        (''Failed to create stamp for '' @ cache_location @ ''.'' @ [newline]) w'
                 else w')
          else w)"

text \<open>
  The conversion of a \<^verbatim>\<open>long\<close> to \<^verbatim>\<open>double\<close>: the nearest value with 53 significant
  binary digits, a tie going to the even one. It is exact up to \<open>2 ^ 53\<close>.
\<close>

function binary_digits :: "int \<Rightarrow> nat" where
  "binary_digits n = (if n \<le> 0 then 0 else Suc (binary_digits (n div 2)))"
  by pat_completeness auto
termination by (relation "measure nat") auto

definition round_to_double :: "int \<Rightarrow> int" where
  "round_to_double n =
     (if n < 2 ^ 53 then n
      else
        (let e = binary_digits n - 53;
             q = n div 2 ^ e;
             r = n mod 2 ^ e;
             half = 2 ^ (e - 1)
         in (if half < r \<or> (r = half \<and> odd q) then q + 1 else q) * 2 ^ e))"

definition long_to_double :: "int \<Rightarrow> int" where
  "long_to_double x = (if x < 0 then - round_to_double (- x) else round_to_double x)"

text \<open>
  Lines 296-311: the value of \<^verbatim>\<open>ret\<close> and the state. \<^verbatim>\<open>src_size\<close> is a double, given
  here by the whole number it holds (the length libcurl reports, or -1); in
  \<^verbatim>\<open>resume_from < src_size\<close> the \<^verbatim>\<open>long\<close> offset is converted to double first.
\<close>

definition validate_resume :: "env \<Rightarrow> path \<Rightarrow> int \<Rightarrow> world \<Rightarrow> int \<times> world" where
  "validate_resume env cache_location src_size w =
     (case fopen_ab env cache_location w of
        None \<Rightarrow>
          (- 1, opkg_msg ERROR (''Failed to open cache file '' @ cache_location @ [newline]) w)
      | Some w1 \<Rightarrow>
          (let resume_from = ftell_end cache_location w1 in
           if long_to_double resume_from < src_size
           then (1, setopt (\<lambda>h. h\<lparr>opt_resume_from := resume_from\<rparr>) w1)
           else (0, w1)))"

text \<open>
  Lines 268-272: the five options of the header-only request; and lines 316-320 after
  the \<^verbatim>\<open>cleanup\<close> label: the same five options back at their body-transfer values.
\<close>

definition metadata_options :: "curl_handle \<Rightarrow> curl_handle" where
  "metadata_options h =
     h\<lparr>opt_writefunction := DummyWrite, opt_headerfunction := HeaderWrite,
       opt_writeheader := EtagVar, opt_header := 1, opt_nobody := 1\<rparr>"

definition transfer_options :: "curl_handle \<Rightarrow> curl_handle" where
  "transfer_options h =
     h\<lparr>opt_writefunction := DefaultWrite, opt_headerfunction := NoHeaderCb,
       opt_writeheader := NoHeaderData, opt_header := 0, opt_nobody := 0\<rparr>"

definition body_transfer_state :: "curl_handle \<Rightarrow> bool" where
  "body_transfer_state h =
     (opt_writefunction h = DefaultWrite \<and> opt_headerfunction h = NoHeaderCb
      \<and> opt_writeheader h = NoHeaderData \<and> opt_header h = 0 \<and> opt_nobody h = 0)"

definition validate_cleanup :: "world \<Rightarrow> world" where
  "validate_cleanup w = setopt transfer_options w"

text \<open>\<^verbatim>\<open>opkg_validate_cached_file\<close> (lines 259-322).\<close>

definition opkg_validate_cached_file ::
    "env \<Rightarrow> string \<Rightarrow> path \<Rightarrow> world \<Rightarrow> (int \<times> world) outcome" where
  "opkg_validate_cached_file env src cache_location w =
     (let w1 = setopt metadata_options w
      in case perform_curl_request env None w1 of
           (res, etag, w2) \<Rightarrow>
             if res \<noteq> CURLE_OK
             then Returns (- 1, validate_cleanup
                    (log_curl_download_error env ''Failed to download headers of'' src res w2))
             else
               (let src_size = info_content_length w2 in
                case validate_stale_check env cache_location etag w2 of
                  Overread \<Rightarrow> Overread
                | Returns (match, w3) \<Rightarrow>
                    (let w4 = validate_stamp_write env cache_location etag match w3 in
                     case validate_resume env cache_location src_size w4 of
                       (ret, w5) \<Rightarrow> Returns (ret, validate_cleanup w5))))"

subsection \<open>The download entry point\<close>

text \<open>
  \<^verbatim>\<open>replace_token_in_str\<close> (lines 134-173): the first occurrence of the token is
  replaced; \<open>strstr\<close> gives its offset.
\<close>

fun strstr :: "string \<Rightarrow> string \<Rightarrow> nat option" where
  "strstr [] tok = (if tok = [] then Some 0 else None)"
| "strstr (c # cs) tok =
     (if take (length tok) (c # cs) = tok then Some 0 else map_option Suc (strstr cs tok))"

definition replace_token_in_str :: "string \<Rightarrow> string \<Rightarrow> string \<Rightarrow> string" where
  "replace_token_in_str str token replacement =
     (if token = [] then str
      else
        (case strstr str token of
           None \<Rightarrow> str
         | Some token_idx \<Rightarrow>
             take token_idx str @ replacement @ drop (token_idx + length token) str))"

text \<open>The option values of a handle that \<^verbatim>\<open>curl_easy_init\<close> has just made.\<close>

definition fresh_handle :: curl_handle where
  "fresh_handle =
     \<lparr>opt_url = [], opt_writefunction = DefaultWrite, opt_headerfunction = NoHeaderCb,
      opt_writeheader = NoHeaderData, opt_header = 0, opt_nobody = 0, opt_resume_from = 0,
      opt_writedata = None\<rparr>"

text \<open>
  \<^verbatim>\<open>opkg_curl_init\<close> (lines 407-515). An existing handle is kept as it is; otherwise
  \<^verbatim>\<open>curl_easy_init\<close> makes one. The options the function sets from the configuration
  (error buffer, verbosity, TLS, timeouts, redirects, proxy, authentication, progress
  callback) are options that no function of this file reads or sets again; they are not
  fields of \<open>curl_handle\<close>, and the DEBUG lines of a refused option are not recorded.
  The static \<^verbatim>\<open>curl\<close> is NULL afterwards when the handle cannot be made or, in a TLS
  build, the engine cannot be set (\<^verbatim>\<open>opkg_download_cleanup\<close>).
\<close>

definition opkg_curl_init :: "env \<Rightarrow> world \<Rightarrow> world" where
  "opkg_curl_init env w =
     (case curl w of
        Some h \<Rightarrow> w
      | None \<Rightarrow> if init_fails env then w else w\<lparr>curl := Some fresh_handle\<rparr>)"

text \<open>Lines 368-383 of \<^verbatim>\<open>opkg_download_backend\<close>: the body transfer.\<close>

definition backend_transfer :: "env \<Rightarrow> string \<Rightarrow> path \<Rightarrow> world \<Rightarrow> int \<times> world" where
  "backend_transfer env src dest w =
     (case fopen_ab env dest w of
        None \<Rightarrow>
          (- 1, opkg_msg ERROR (''Failed to open destination file '' @ dest @ [newline]) w)
      | Some w1 \<Rightarrow>
          (let w2 = setopt (\<lambda>h. h\<lparr>opt_writedata := Some dest\<rparr>) w1 in
           case perform_curl_request env None w2 of
             (res, etag, w3) \<Rightarrow>
               if res \<noteq> CURLE_OK
               then (- 1, log_curl_download_error env ''Failed to download'' src res w3)
               else (0, w3)))"

text \<open>Lines 336-358: the URL, rewritten for explicit FTP over TLS.\<close>

definition backend_prepare :: "env \<Rightarrow> string \<Rightarrow> world \<Rightarrow> world" where
  "backend_prepare env src w =
     (let w1 = setopt (\<lambda>h. h\<lparr>opt_url := src\<rparr>) w
      in if ftp_explicit_ssl env
         then setopt (\<lambda>h. h\<lparr>opt_url := replace_token_in_str src ''ftps://'' ''ftp://''\<rparr>) w1
         else w1)"

text \<open>\<^verbatim>\<open>opkg_download_backend\<close> (lines 325-384).\<close>

definition opkg_download_backend ::
    "env \<Rightarrow> string \<Rightarrow> path \<Rightarrow> bool \<Rightarrow> world \<Rightarrow> (int \<times> world) outcome" where
  "opkg_download_backend env src dest use_cache w =
     (let w0 = opkg_curl_init env w in
      if curl w0 = None then Returns (- 1, w0)
      else
        (let w2 = backend_prepare env src w0
         in if use_cache then
              (case opkg_validate_cached_file env src dest w2 of
                 Overread \<Rightarrow> Overread
               | Returns (ret, w3) \<Rightarrow>
                   if ret \<le> 0 then Returns (ret, w3)
                   else Returns (backend_transfer env src dest w3))
            else Returns (backend_transfer env src dest (unlink dest w2))))"

subsection \<open>Observations on an outcome\<close>

definition verdict :: "(int \<times> world) outcome \<Rightarrow> int option" where
  "verdict out = (case out of Returns (ret, w) \<Rightarrow> Some ret | Overread \<Rightarrow> None)"

definition file_after :: "path \<Rightarrow> (int \<times> world) outcome \<Rightarrow> string option" where
  "file_after p out = (case out of Returns (ret, w) \<Rightarrow> files w p | Overread \<Rightarrow> None)"

definition resume_after :: "(int \<times> world) outcome \<Rightarrow> int option" where
  "resume_after out =
     (case out of
        Returns (ret, w) \<Rightarrow> map_option opt_resume_from (curl w)
      | Overread \<Rightarrow> None)"

definition requests_after :: "(int \<times> world) outcome \<Rightarrow> curl_handle list" where
  "requests_after out = (case out of Returns (ret, w) \<Rightarrow> requests w | Overread \<Rightarrow> [])"

definition msgs_after :: "(int \<times> world) outcome \<Rightarrow> (message_level \<times> string) list" where
  "msgs_after out = (case out of Returns (ret, w) \<Rightarrow> msgs w | Overread \<Rightarrow> [])"

subsection \<open>Example environments\<close>

definition crlf :: string where
  "crlf = [CHR 0x0D, CHR 0x0A]"

text \<open>
  A successful answer to a request: a status line, the marker (when the remote side has
  one) in an ETag field, the end of the header, and the length libcurl reports.
\<close>

definition ok_reply :: "string option \<Rightarrow> int \<Rightarrow> reply" where
  "ok_reply marker len =
     \<lparr>rc = CURLE_OK, detail = [],
      header_lines =
        [''HTTP/1.1 200 OK'' @ crlf]
        @ (case marker of None \<Rightarrow> [] | Some m \<Rightarrow> [''ETag: '' @ [dquote] @ m @ [dquote] @ crlf])
        @ [crlf],
      content_length = len, body = []\<rparr>"

definition failed_reply :: "nat \<Rightarrow> string \<Rightarrow> reply" where
  "failed_reply code txt =
     \<lparr>rc = code, detail = txt, header_lines = [], content_length = - 1, body = []\<rparr>"

definition example_env :: "reply \<Rightarrow> string \<Rightarrow> path set \<Rightarrow> env" where
  "example_env r slack unwritable =
     \<lparr>transport = (\<lambda>h. r),
      curl_easy_strerror = (\<lambda>n. if n = 22 then ''HTTP response code said error''
                                 else ''Unknown error''),
      heap_slack = slack, init_fails = False, ftp_explicit_ssl = False,
      no_read = {}, no_write = unwritable, close_fails = {}, read_fault = Map.empty\<rparr>"

definition example_world :: "(path \<rightharpoonup> string) \<Rightarrow> world" where
  "example_world fs =
     \<lparr>files = fs, curl = Some fresh_handle, curl_errorbuffer = [],
      info_content_length = - 1, msgs = [], requests = []\<rparr>"

text \<open>A cache file of four bytes whose stamp holds the marker \<open>abc\<close>.\<close>

definition cached_abc :: "path \<rightharpoonup> string" where
  "cached_abc = [''pkg.gz'' \<mapsto> ''0123'', ''pkg.gz.@stamp'' \<mapsto> ''abc'']"

subsection \<open>Predicates of the specification\<close>

text \<open>
  The specification's words for the end of a log line: the text ends with exactly one
  newline, and, for a transport detail, it ends with two of them.
\<close>

definition ends_with_one_newline :: "string \<Rightarrow> bool" where
  "ends_with_one_newline s =
     (s \<noteq> [] \<and> last s = newline \<and> (butlast s = [] \<or> last (butlast s) \<noteq> newline))"

definition ends_with_two_newlines :: "string \<Rightarrow> bool" where
  "ends_with_two_newlines s =
     (2 \<le> length s \<and> last s = newline \<and> last (butlast s) = newline)"

text \<open>
  The specification's stamp store: \<open>write\<close> followed by \<open>matches\<close>, as the result of
  \<^verbatim>\<open>check_file_stamp\<close> on the files that \<^verbatim>\<open>create_file_stamp\<close> leaves. The
  candidate is given as the region readable from its first byte.
\<close>

definition write_then_check :: "env \<Rightarrow> path \<Rightarrow> string \<Rightarrow> string \<Rightarrow> world \<Rightarrow> int option" where
  "write_then_check env p written region w =
     verdict (check_file_stamp env p region (snd (create_file_stamp env p written w)))"

section \<open>Properties\<close>

subsection \<open>Steps of the validator\<close>

lemma stamp_path_neq: "stamp_path p \<noteq> p"
  by (simp add: stamp_path_def)

lemma perform_metadata:
  assumes "perform_curl_request env None (setopt metadata_options w) = (res, etag, w2)"
  shows "files w2 = files w \<and> msgs w2 = msgs w
       \<and> curl w2 = map_option metadata_options (curl w)
       \<and> (res = CURLE_OK \<longrightarrow> curl w \<noteq> None)"
  using assms
  by (cases "curl w")
     (auto simp: perform_curl_request_def curl_easy_perform_def Let_def setopt_def
        metadata_options_def CURLE_OK_def CURLE_BAD_FUNCTION_ARGUMENT_def)

lemma perform_metadata_requests:
  assumes "perform_curl_request env None (setopt metadata_options w) = (res, etag, w2)"
    and "curl w = Some h"
  shows "requests w2 = requests w @ [metadata_options h]
       \<and> res = rc (transport env (metadata_options h))
       \<and> info_content_length w2 = content_length (transport env (metadata_options h))"
  using assms
  by (auto simp: perform_curl_request_def curl_easy_perform_def Let_def setopt_def)

lemma check_file_stamp_frame:
  assumes "check_file_stamp env c region w = Returns (d, w')"
  shows "files w' = files w \<and> curl w' = curl w \<and> requests w' = requests w
       \<and> info_content_length w' = info_content_length w"
  using assms
  by (auto simp: check_file_stamp_def Let_def opkg_msg_def
      split: if_splits option.splits outcome.splits)

lemma stale_check_frame:
  assumes "validate_stale_check env c etag w = Returns (m, w')"
  shows "curl w' = curl w \<and> requests w' = requests w
       \<and> (\<forall>p. p \<noteq> c \<longrightarrow> files w' p = files w p)
       \<and> (m = 0 \<or> m = 1)
       \<and> (m = 1 \<longrightarrow> files w' = files w \<and> etag \<noteq> None \<and> file_exists c w)
       \<and> (m = 0 \<longrightarrow> files w' c = None \<or> files w' = files w \<and> \<not> file_exists c w)"
  using assms
  by (auto simp: validate_stale_check_def unlink_def file_exists_def
      split: if_splits option.splits outcome.splits prod.splits
      dest!: check_file_stamp_frame)

lemma stamp_write_frame:
  "curl (validate_stamp_write env c etag m w) = curl w
   \<and> requests (validate_stamp_write env c etag m w) = requests w
   \<and> (\<forall>p. p \<noteq> stamp_path c \<longrightarrow> files (validate_stamp_write env c etag m w) p = files w p)"
  by (auto simp: validate_stamp_write_def create_file_stamp_def Let_def opkg_msg_def
      split: option.splits)

declare binary_digits.simps [simp del]

lemma round_to_double_nonneg: "0 \<le> n \<Longrightarrow> 0 \<le> round_to_double n"
  by (simp add: round_to_double_def Let_def pos_imp_zdiv_nonneg_iff)

lemma long_to_double_exact: "0 \<le> x \<Longrightarrow> x \<le> 2 ^ 53 \<Longrightarrow> long_to_double x = x"
proof -
  assume x: "0 \<le> x" "x \<le> 2 ^ 53"
  have top: "round_to_double (2 ^ 53) = 2 ^ 53" by code_simp
  have "round_to_double x = x"
  proof (cases "x < 2 ^ 53")
    case True
    then show ?thesis by (simp add: round_to_double_def)
  next
    case False
    with x have "x = 2 ^ 53" by simp
    with top show ?thesis by simp
  qed
  with x show ?thesis by (simp add: long_to_double_def)
qed

lemma long_to_double_zero: "long_to_double 0 = 0"
  by (simp add: long_to_double_def round_to_double_def)

lemma long_to_double_nonneg: "0 \<le> x \<Longrightarrow> 0 \<le> long_to_double x"
  by (simp add: long_to_double_def round_to_double_nonneg)

text \<open>Above \<open>2 ^ 53\<close> the conversion rounds: an offset can compare equal to a larger size.\<close>

lemma long_to_double_rounds: "long_to_double (2 ^ 53 + 3) = 2 ^ 53 + 4"
  by code_simp

lemma validate_resume_cases:
  assumes "validate_resume env c R w = (ret, w')"
  shows "requests w' = requests w
       \<and> (\<forall>p. p \<noteq> c \<longrightarrow> files w' p = files w p)
       \<and> (c \<in> no_write env \<longrightarrow> ret = - 1 \<and> files w' = files w \<and> curl w' = curl w)
       \<and> (c \<notin> no_write env \<longrightarrow>
            files w' c = Some (case files w c of None \<Rightarrow> [] | Some x \<Rightarrow> x)
          \<and> (if long_to_double (ftell_end c w') < R
              then ret = 1 \<and> curl w' = map_option (\<lambda>h. h\<lparr>opt_resume_from := ftell_end c w'\<rparr>) (curl w)
              else ret = 0 \<and> curl w' = curl w))"
  using assms
  by (auto simp: validate_resume_def fopen_ab_def fappend_def ftell_end_def Let_def
      setopt_def opkg_msg_def split: if_splits option.splits)

lemma validate_failed_unfold:
  assumes "perform_curl_request env None (setopt metadata_options w) = (res, etag, w2)"
    and "res \<noteq> CURLE_OK"
  shows "opkg_validate_cached_file env src c w =
           Returns (- 1, validate_cleanup
             (log_curl_download_error env ''Failed to download headers of'' src res w2))"
  using assms by (simp add: opkg_validate_cached_file_def)

lemma validate_ok_unfold:
  assumes "perform_curl_request env None (setopt metadata_options w) = (res, etag, w2)"
    and "res = CURLE_OK"
    and "opkg_validate_cached_file env src c w = Returns (ret, w')"
  obtains m w3 w5 where
    "validate_stale_check env c etag w2 = Returns (m, w3)"
    "validate_resume env c (info_content_length w2) (validate_stamp_write env c etag m w3) = (ret, w5)"
    "w' = validate_cleanup w5"
  using assms
  by (auto simp: opkg_validate_cached_file_def Let_def split: outcome.splits prod.splits)

lemma validate_ok_fold:
  assumes "perform_curl_request env None (setopt metadata_options w) = (CURLE_OK, etag, w2)"
    and "validate_stale_check env c etag w2 = Returns (m, w3)"
    and "validate_resume env c (info_content_length w2) (validate_stamp_write env c etag m w3) = (ret, w5)"
  shows "opkg_validate_cached_file env src c w = Returns (ret, validate_cleanup w5)"
  using assms by (simp add: opkg_validate_cached_file_def Let_def)

lemma cleanup_frame:
  "files (validate_cleanup w) = files w \<and> requests (validate_cleanup w) = requests w
   \<and> msgs (validate_cleanup w) = msgs w
   \<and> curl (validate_cleanup w) = map_option transfer_options (curl w)"
  by (simp add: validate_cleanup_def setopt_def)

lemma ftell_end_cleanup: "ftell_end c (validate_cleanup w) = ftell_end c w"
  by (simp add: ftell_end_def cleanup_frame)

lemma transfer_metadata: "transfer_options (metadata_options h) = transfer_options h"
  by (simp add: transfer_options_def metadata_options_def)

lemma transfer_resume:
  "transfer_options (h\<lparr>opt_resume_from := x\<rparr>) = (transfer_options h)\<lparr>opt_resume_from := x\<rparr>"
  by (simp add: transfer_options_def)

lemma transfer_resume_same:
  "(transfer_options h)\<lparr>opt_resume_from := opt_resume_from h\<rparr> = transfer_options h"
  by (simp add: transfer_options_def)

subsection \<open>The marker is a C string\<close>

lemma cstr_no_NUL: "NUL \<notin> set (cstr bs)"
  unfolding cstr_def by (induction bs) auto

lemma cstr_id: "NUL \<notin> set s \<Longrightarrow> cstr s = s"
  unfolding cstr_def by (induction s) auto

lemma header_write_no_NUL:
  assumes "\<forall>e. out = Some e \<longrightarrow> NUL \<notin> set e"
    and "header_write ptr out = Some e"
  shows "NUL \<notin> set e"
proof -
  have sub: "\<And>n k. set (take n (drop k (cstr ptr))) \<subseteq> set (cstr ptr)"
    by (meson order_trans set_drop_subset set_take_subset)
  from assms show ?thesis
    using cstr_no_NUL[of ptr] sub
    by (auto simp: header_write_def Let_def split: if_splits option.splits)
qed

lemma deliver_no_NUL:
  assumes "\<forall>e. out = Some e \<longrightarrow> NUL \<notin> set e"
  shows "\<forall>e. foldl (\<lambda>e ln. header_write ln e) out lns = Some e \<longrightarrow> NUL \<notin> set e"
  using assms
proof (induction lns arbitrary: out)
  case Nil
  then show ?case by simp
next
  case (Cons ln lns)
  have "\<forall>e. header_write ln out = Some e \<longrightarrow> NUL \<notin> set e"
    using header_write_no_NUL[OF Cons.prems] by blast
  from Cons.IH[OF this] show ?case by simp
qed

lemma perform_marker_no_NUL:
  assumes "perform_curl_request env None w = (res, Some e, w2)"
  shows "NUL \<notin> set e"
proof (cases "curl w")
  case None
  with assms show ?thesis
    by (simp add: perform_curl_request_def curl_easy_perform_def)
next
  case (Some h)
  have "\<forall>e. foldl (\<lambda>e ln. header_write ln e) None (header_lines (transport env h)) = Some e
          \<longrightarrow> NUL \<notin> set e"
    by (rule deliver_no_NUL) simp
  with assms Some show ?thesis
    by (auto simp: perform_curl_request_def curl_easy_perform_def Let_def split: if_splits)
qed

subsection \<open>What the stamp comparison computes\<close>

declare stamp_loop.simps [simp del]

lemma fread_facts:
  assumes "fread n s = (b, e, s')"
  shows "length b \<le> n" and "b = take (length b) (unread s)"
    and "unread s' = drop (length b) (unread s)"
    and "length b < n \<Longrightarrow> fst (fread m s') = []"
    and "good s = None \<Longrightarrow> b = take n (unread s) \<and> \<not> e \<and> good s' = None"
  using assms
  by (auto simp: fread_def Let_def min_def split: option.splits if_splits)

lemma cstr_region: "NUL \<notin> set s \<Longrightarrow> cstr (s @ NUL # slack) = s"
  unfolding cstr_def by (induction s) auto

lemma strlen_region: "NUL \<notin> set s \<Longrightarrow> strlen (s @ NUL # slack) = Some (length s)"
  by (simp add: strlen_def cstr_region)

lemma stamp_loop_Nil: "stamp_loop f (NUL # slack) diff = Returns diff"
  by (subst stamp_loop.simps) simp

lemma stamp_loop_at_eof:
  assumes "fst (fread STAMP_BUF_SIZE f) = []" and "NUL \<in> set t"
  shows "stamp_loop f t diff =
           (if hd t = NUL then Returns diff
            else if fst (snd (fread STAMP_BUF_SIZE f)) then Returns (- 1) else Returns 1)"
proof -
  from assms(2) obtain c r where t: "t = c # r" by (cases t) auto
  obtain b e f' where fr: "fread STAMP_BUF_SIZE f = (b, e, f')"
    by (cases "fread STAMP_BUF_SIZE f") auto
  with assms(1) have b: "b = []" by simp
  show ?thesis
  proof (cases "c = NUL")
    case True
    then show ?thesis unfolding t by (simp add: stamp_loop_Nil)
  next
    case False
    then have "cstr t \<noteq> []" by (simp add: t cstr_def)
    with assms(2) obtain n where n: "strlen t = Some n" "n \<noteq> 0"
      by (auto simp: strlen_def)
    show ?thesis
      by (subst stamp_loop.simps)
         (use False fr b n in \<open>auto simp: t STAMP_BUF_SIZE_def\<close>)
  qed
qed

lemma stamp_loop_step:
  assumes "stamp \<noteq> []" and "hd stamp \<noteq> NUL"
    and "fread STAMP_BUF_SIZE f = (b, e, f')" and "strlen stamp = Some n"
  shows "stamp_loop f stamp diff =
     (if length b = 0 \<and> e then Returns (- 1)
      else if (length b < STAMP_BUF_SIZE \<and> length b \<noteq> n)
              \<or> (length b = STAMP_BUF_SIZE \<and> n < STAMP_BUF_SIZE)
              \<or> memcmp_differs b stamp (length b)
           then Returns 1
           else stamp_loop f' (drop STAMP_BUF_SIZE stamp) 0)"
  using assms by (subst stamp_loop.simps) (cases stamp; simp add: Let_def)

lemma drop_region_long:
  "10 \<le> length s \<Longrightarrow> drop 10 (s @ NUL # slack) = drop 10 s @ NUL # slack"
  by simp

lemma drop_region_short:
  "length s < 10 \<Longrightarrow> drop 10 (s @ NUL # slack) = drop (9 - length s) slack"
proof -
  assume "length s < 10"
  then have "10 - length s = Suc (9 - length s)" by simp
  then show ?thesis by simp
qed

lemma NUL_in_drop:
  assumes "NUL \<in> set (drop 8 slack)" and "k \<le> 8"
  shows "NUL \<in> set (drop k slack)"
proof -
  have "drop 8 slack = drop (8 - k) (drop k slack)" using assms(2) by simp
  then show ?thesis using assms(1) by (metis in_set_dropD)
qed

text \<open>
  The candidate is a C string \<open>s\<close>, its terminator and the bytes \<open>slack\<close> behind it.
  When at least nine bytes behind the terminator are readable and a zero byte follows
  the first eight of them, the loop stays inside readable memory, whatever the stream.
\<close>

lemma stamp_loop_defined:
  assumes "NUL \<notin> set s" and "NUL \<in> set (drop 8 slack)"
  shows "\<exists>d. stamp_loop f (s @ NUL # slack) diff = Returns d"
  using assms(1)
proof (induction s arbitrary: f diff rule: length_induct)
  case (1 s)
  show ?case
  proof (cases s)
    case Nil
    then show ?thesis by (simp add: stamp_loop_Nil)
  next
    case (Cons c r)
    with 1 have c: "c \<noteq> NUL" by auto
    obtain b e f' where fr: "fread STAMP_BUF_SIZE f = (b, e, f')"
      by (cases "fread STAMP_BUF_SIZE f") auto
    from fread_facts(1)[OF fr] have bl: "length b \<le> 10" by (simp add: STAMP_BUF_SIZE_def)
    have sl: "strlen (s @ NUL # slack) = Some (length s)"
      using 1 by (simp add: strlen_region)
    let ?cond = "(length b < STAMP_BUF_SIZE \<and> length b \<noteq> length s)
                 \<or> (length b = STAMP_BUF_SIZE \<and> length s < STAMP_BUF_SIZE)
                 \<or> memcmp_differs b (s @ NUL # slack) (length b)"
    have unfold: "stamp_loop f (s @ NUL # slack) diff =
        (if length b = 0 \<and> e then Returns (- 1)
         else if ?cond then Returns 1
         else stamp_loop f' (drop STAMP_BUF_SIZE (s @ NUL # slack)) 0)"
      by (subst stamp_loop.simps) (use c fr sl in \<open>simp add: Cons Let_def\<close>)
    show ?thesis
    proof (cases "(length b = 0 \<and> e) \<or> ?cond")
      case True
      then show ?thesis unfolding unfold by auto
    next
      case False
      then have go: "stamp_loop f (s @ NUL # slack) diff
                       = stamp_loop f' (drop STAMP_BUF_SIZE (s @ NUL # slack)) 0"
        unfolding unfold by auto
      show ?thesis
      proof (cases "length b = 10")
        case True
        with False have "10 \<le> length s" by (auto simp: STAMP_BUF_SIZE_def)
        then have d: "drop STAMP_BUF_SIZE (s @ NUL # slack) = drop 10 s @ NUL # slack"
          by (simp add: STAMP_BUF_SIZE_def)
        have "length (drop 10 s) < length s" using Cons by simp
        moreover have "NUL \<notin> set (drop 10 s)" using 1 by (meson in_set_dropD)
        ultimately show ?thesis using 1 unfolding go d by blast
      next
        case ne: False
        with bl have lt: "length b < 10" by simp
        with False have eq: "length b = length s" by (auto simp: STAMP_BUF_SIZE_def)
        then have d: "drop STAMP_BUF_SIZE (s @ NUL # slack) = drop (9 - length s) slack"
          using lt drop_region_short[of s slack] by (simp only: STAMP_BUF_SIZE_def)
        have eof: "fst (fread STAMP_BUF_SIZE f') = []"
          using fread_facts(4)[OF fr] lt by (simp add: STAMP_BUF_SIZE_def)
        have "NUL \<in> set (drop (9 - length s) slack)"
          using NUL_in_drop[OF assms(2), of "9 - length s"] Cons by simp
        from stamp_loop_at_eof[OF eof this] show ?thesis unfolding go d by auto
      qed
    qed
  qed
qed

text \<open>
  The result of the loop on a stream that reads without error. For a candidate whose
  length is a multiple of ten the loop reports a match exactly when the candidate is a
  prefix of the file; for any other length it reports a match exactly when the file
  equals the candidate and the byte \<open>9 - length s mod 10\<close> places behind the terminator
  is zero.
\<close>

lemma stamp_loop_result:
  assumes "NUL \<notin> set s" and "NUL \<in> set (drop 8 slack)"
  shows "stamp_loop \<lparr>unread = content, good = None\<rparr> (s @ NUL # slack) 0 =
           Returns (if (if length s mod 10 = 0 then take (length s) content = s
                        else content = s \<and> slack ! (9 - length s mod 10) = NUL)
                    then 0 else 1)"
  using assms(1)
proof (induction s arbitrary: content rule: length_induct)
  case (1 s)
  let ?f = "\<lparr>unread = content, good = None\<rparr>"
  let ?agrees = "\<lambda>content s. (if length s mod 10 = 0 then take (length s) content = s
                        else content = s \<and> slack ! (9 - length s mod 10) = NUL)"
  show ?case
  proof (cases s)
    case Nil
    then show ?thesis by (simp add: stamp_loop_Nil)
  next
    case (Cons c r)
    with 1 have c: "c \<noteq> NUL" by auto
    have pos: "0 < length s" using Cons by simp
    let ?b = "take 10 content"
    let ?f' = "\<lparr>unread = drop 10 content, good = None\<rparr>"
    have fr: "fread STAMP_BUF_SIZE ?f = (?b, False, ?f')"
      by (auto simp: fread_def Let_def STAMP_BUF_SIZE_def min_def)
    have sl: "strlen (s @ NUL # slack) = Some (length s)"
      using 1 by (simp add: strlen_region)
    let ?cond = "(length ?b < 10 \<and> length ?b \<noteq> length s)
                 \<or> (length ?b = 10 \<and> length s < 10)
                 \<or> memcmp_differs ?b (s @ NUL # slack) (length ?b)"
    have unfold: "stamp_loop ?f (s @ NUL # slack) 0 =
        (if ?cond then Returns 1
         else stamp_loop ?f' (drop 10 (s @ NUL # slack)) 0)"
    proof -
      have ne: "s @ NUL # slack \<noteq> []" by simp
      have hd: "hd (s @ NUL # slack) \<noteq> NUL" using c Cons by simp
      from stamp_loop_step[OF ne hd fr sl, of 0, unfolded STAMP_BUF_SIZE_def]
      show ?thesis by simp
    qed
    show ?thesis
    proof (cases "10 \<le> length content")
      case long: True
      then have lb: "length ?b = 10" by simp
      show ?thesis
      proof (cases "length s < 10")
        case True
        then have "\<not> ?agrees content s" using pos long by auto
        moreover have ?cond using lb True by simp
        ultimately show ?thesis unfolding unfold by simp
      next
        case False
        then have ls: "10 \<le> length s" by simp
        have mc: "memcmp_differs ?b (s @ NUL # slack) (length ?b) \<longleftrightarrow> take 10 content \<noteq> take 10 s"
          using ls long by (simp add: memcmp_differs_def min_def)
        show ?thesis
        proof (cases "take 10 content = take 10 s")
          case ne: False
          have "\<not> ?agrees content s"
          proof
            assume a: "?agrees content s"
            then have "take (length s) content = s" by (auto split: if_splits)
            then have "take 10 (take (length s) content) = take 10 s" by simp
            with ls have "take 10 content = take 10 s" by (simp add: min_def)
            with ne show False by simp
          qed
          moreover have ?cond using ne mc by simp
          ultimately show ?thesis unfolding unfold by simp
        next
          case eq: True
          then have nc: "\<not> ?cond" using lb ls mc by simp
          have d: "drop 10 (s @ NUL # slack) = drop 10 s @ NUL # slack"
            using ls by simp
          have shorter: "length (drop 10 s) < length s" using pos by simp
          have nn: "NUL \<notin> set (drop 10 s)" using 1 by (meson in_set_dropD)
          have modeq: "length (drop 10 s) mod 10 = length s mod 10"
            using ls by (simp add: le_mod_geq)
          have split_c: "content = take 10 content @ drop 10 content" by simp
          have split_s: "s = take 10 s @ drop 10 s" by simp
          have whole: "content = s \<longleftrightarrow> drop 10 content = drop 10 s"
            using eq by (metis append_take_drop_id)
          have "take (length s) content = take 10 content @ take (length s - 10) (drop 10 content)"
            using ls long by (metis append_take_drop_id le_add_diff_inverse take_add
                length_take min.absorb2 split_c)
          then have pre: "take (length s) content = s
                \<longleftrightarrow> take (length (drop 10 s)) (drop 10 content) = drop 10 s"
            using eq by (metis append_take_drop_id length_drop same_append_eq)
          have "?agrees content s \<longleftrightarrow> ?agrees (drop 10 content) (drop 10 s)"
            using modeq whole pre by simp
          moreover from 1 shorter nn
          have "stamp_loop ?f' (drop 10 s @ NUL # slack) 0 =
                  Returns (if ?agrees (drop 10 content) (drop 10 s) then 0 else 1)"
            by blast
          ultimately show ?thesis unfolding unfold d using nc by simp
        qed
      qed
    next
      case short: False
      then have lb: "length ?b = length content" and lt: "length content < 10" by simp_all
      have b: "?b = content" using lt by simp
      show ?thesis
      proof (cases "length content = length s")
        case False
        have "\<not> ?agrees content s"
        proof
          assume a: "?agrees content s"
          show False
          proof (cases "length s mod 10 = 0")
            case True
            with a have "take (length s) content = s" by simp
            then have "length (take (length s) content) = length s" by simp
            then have "length s \<le> length content" by simp
            with lt pos True show False by auto
          next
            case False
            with a have "content = s" by simp
            with \<open>length content \<noteq> length s\<close> show False by simp
          qed
        qed
        moreover have ?cond using False lb lt by simp
        ultimately show ?thesis unfolding unfold by simp
      next
        case eql: True
        then have ls: "length s < 10" using lt by simp
        have md: "length s mod 10 = length s" using ls by simp
        have mc: "memcmp_differs ?b (s @ NUL # slack) (length ?b) \<longleftrightarrow> content \<noteq> s"
          using eql by (simp add: memcmp_differs_def b)
        show ?thesis
        proof (cases "content = s")
          case False
          then have ?cond using mc by simp
          moreover have "\<not> ?agrees content s" using False md pos by simp
          ultimately show ?thesis unfolding unfold by simp
        next
          case True
          then have nc: "\<not> ?cond" using mc eql lb lt by simp
          have d: "drop 10 (s @ NUL # slack) = drop (9 - length s) slack"
            using ls by (rule drop_region_short)
          have eof: "fst (fread STAMP_BUF_SIZE ?f') = []"
            using lt by (simp add: fread_def Let_def)
          have ferr: "\<not> fst (snd (fread STAMP_BUF_SIZE ?f'))"
            by (simp add: fread_def Let_def)
          have k: "9 - length s \<le> 8" using pos by arith
          have inn: "NUL \<in> set (drop (9 - length s) slack)"
            by (rule NUL_in_drop[OF assms(2) k])
          then have "9 - length s < length slack"
            by (metis drop_all empty_iff leI list.set(1))
          then have hd: "hd (drop (9 - length s) slack) = slack ! (9 - length s)"
            by (simp add: hd_drop_conv_nth)
          have "stamp_loop ?f' (drop (9 - length s) slack) 0 =
                  (if slack ! (9 - length s) = NUL then Returns 0 else Returns 1)"
            using stamp_loop_at_eof[OF eof inn, of 0] ferr hd by simp
          moreover have "?agrees content s \<longleftrightarrow> slack ! (9 - length s) = NUL"
            using True md pos by simp
          ultimately show ?thesis unfolding unfold d using nc by simp
        qed
      qed
    qed
  qed
qed

lemma check_file_stamp_defined:
  assumes "NUL \<notin> set s" and "NUL \<in> set (drop 8 slack)"
  shows "\<exists>d w'. check_file_stamp env p (s @ NUL # slack) w = Returns (d, w')"
proof (cases "file_exists (stamp_path p) w")
  case False
  then show ?thesis by (simp add: check_file_stamp_def)
next
  case True
  show ?thesis
  proof (cases "fopen_rb env (stamp_path p) w")
    case None
    with True show ?thesis by (simp add: check_file_stamp_def)
  next
    case (Some f)
    from stamp_loop_defined[OF assms, of f 0] obtain d where
      "stamp_loop f (s @ NUL # slack) 0 = Returns d" by blast
    with True Some show ?thesis by (simp add: check_file_stamp_def Let_def)
  qed
qed

lemma check_file_stamp_result:
  assumes "files w (stamp_path p) = Some content"
    and "stamp_path p \<notin> no_read env" and "read_fault env (stamp_path p) = None"
    and "NUL \<notin> set s" and "NUL \<in> set (drop 8 slack)"
  shows "verdict (check_file_stamp env p (s @ NUL # slack) w) =
           Some (if (if length s mod 10 = 0 then take (length s) content = s
                     else content = s \<and> slack ! (9 - length s mod 10) = NUL)
                 then 0 else 1)"
proof -
  have f: "fopen_rb env (stamp_path p) w = Some \<lparr>unread = content, good = None\<rparr>"
    using assms(1-3) by (simp add: fopen_rb_def)
  have e: "file_exists (stamp_path p) w" using assms(1) by (simp add: file_exists_def)
  show ?thesis
    using f e stamp_loop_result[OF assms(4,5), of content]
    by (simp add: check_file_stamp_def verdict_def Let_def)
qed

text \<open>
  Writing a stamp and checking the same marker gives a match exactly when the length of
  the marker is a multiple of ten or the byte the pointer lands on behind the terminator
  happens to be zero.
\<close>

lemma round_trip_result:
  assumes "stamp_path p \<notin> no_write env"
    and "stamp_path p \<notin> no_read env" and "read_fault env (stamp_path p) = None"
    and "NUL \<notin> set s" and "NUL \<in> set (drop 8 slack)"
  shows "write_then_check env p s (s @ NUL # slack) w =
           Some (if length s mod 10 = 0 \<or> slack ! (9 - length s mod 10) = NUL then 0 else 1)"
proof -
  let ?w = "snd (create_file_stamp env p s w)"
  have "files ?w (stamp_path p) = Some s"
    using assms(1,4) by (simp add: create_file_stamp_def Let_def cstr_id)
  from check_file_stamp_result[OF this assms(2-5)]
  show ?thesis by (simp add: write_then_check_def)
qed

subsection \<open>The stamp store against its contract\<close>

text \<open>
  Claim C3 does not hold of the code. After the stamp \<open>0123456789a\<close> is written, the
  candidate \<open>0123456789\<close> (ten bytes, a proper prefix) is reported equal: the loop ends
  when the candidate is used up and never looks for the end of the file. For the same
  reason the empty candidate is reported equal to any stamp file.
\<close>

theorem prefix_stamp_matches:
  "write_then_check (example_env (ok_reply None 0) [] {}) ''pkg.gz''
      ''0123456789a'' (''0123456789'' @ [NUL]) (example_world Map.empty) = Some 0
   \<and> write_then_check (example_env (ok_reply None 0) [] {}) ''pkg.gz''
      ''abc'' [NUL] (example_world Map.empty) = Some 0"
  by code_simp

text \<open>
  Claim C4 does not hold of the code. After the stamp \<open>abc\<close> is written, the check of
  the same marker compares the three bytes, finds them equal and then moves the pointer
  ten bytes on, six bytes past the terminator. When the marker's four bytes are all
  that is readable the check reads outside them; when the heap behind the terminator
  holds other bytes the check goes on with them and reports a mismatch. The validator
  then deletes a cache file whose stamp is the marker itself, and restarts from 0.
\<close>

theorem round_trip_reads_past_marker:
  "write_then_check (example_env (ok_reply None 0) [] {}) ''pkg.gz''
      ''abc'' (''abc'' @ [NUL]) (example_world Map.empty) = None
   \<and> write_then_check (example_env (ok_reply None 0) [] {}) ''pkg.gz''
      ''abc'' (''abc'' @ NUL # ''previous'' @ [NUL]) (example_world Map.empty) = Some 1
   \<and> verdict (opkg_validate_cached_file
        (example_env (ok_reply (Some ''abc'') 1000) (''previous'' @ [NUL]) {})
        ''http://host/pkg.gz'' ''pkg.gz'' (example_world cached_abc)) = Some 1
   \<and> file_after ''pkg.gz'' (opkg_validate_cached_file
        (example_env (ok_reply (Some ''abc'') 1000) (''previous'' @ [NUL]) {})
        ''http://host/pkg.gz'' ''pkg.gz'' (example_world cached_abc)) = Some []
   \<and> resume_after (opkg_validate_cached_file
        (example_env (ok_reply (Some ''abc'') 1000) (''previous'' @ [NUL]) {})
        ''http://host/pkg.gz'' ''pkg.gz'' (example_world cached_abc)) = Some 0"
  by code_simp

subsection \<open>The validator returns\<close>

text \<open>
  With that much readable memory behind the marker the validator always returns.
\<close>

lemma validate_returns:
  assumes "marker_slack_readable env"
  shows "\<exists>ret w'. opkg_validate_cached_file env src c w = Returns (ret, w')"
proof -
  obtain res etag w2 where
    p: "perform_curl_request env None (setopt metadata_options w) = (res, etag, w2)"
    by (cases "perform_curl_request env None (setopt metadata_options w)") auto
  show ?thesis
  proof (cases "res = CURLE_OK")
    case False
    from validate_failed_unfold[OF p False] show ?thesis by blast
  next
    case True
    have "\<exists>m w3. validate_stale_check env c etag w2 = Returns (m, w3)"
    proof (cases etag)
      case None
      then show ?thesis by (simp add: validate_stale_check_def)
    next
      case (Some e)
      with p have "NUL \<notin> set e" using perform_marker_no_NUL by blast
      from check_file_stamp_defined[OF this assms[unfolded marker_slack_readable_def], of env c w2]
      obtain d w3 where "check_file_stamp env c (e @ NUL # heap_slack env) w2 = Returns (d, w3)"
        by blast
      with Some show ?thesis by (simp add: validate_stale_check_def)
    qed
    then obtain m w3 where s: "validate_stale_check env c etag w2 = Returns (m, w3)" by blast
    obtain ret w5 where
      r: "validate_resume env c (info_content_length w2) (validate_stamp_write env c etag m w3)
            = (ret, w5)"
      by (cases "validate_resume env c (info_content_length w2)
                   (validate_stamp_write env c etag m w3)") auto
    from validate_ok_fold[OF p[unfolded True] s r] show ?thesis by blast
  qed
qed

subsection \<open>Transport failure and resume arithmetic\<close>

text \<open>
  Claim C9. When the header-only request fails, the validator returns -1 and the file
  system is as it was: the cache file is neither deleted nor opened (opening it for
  append would create it), and no stamp file is written.
\<close>

theorem validate_transport_failure:
  assumes "fst (perform_curl_request env None (setopt metadata_options w)) \<noteq> CURLE_OK"
  shows "\<exists>w'. opkg_validate_cached_file env src cache_location w = Returns (- 1, w')
            \<and> files w' = files w"
proof -
  obtain res etag w2 where
    p: "perform_curl_request env None (setopt metadata_options w) = (res, etag, w2)"
    by (cases "perform_curl_request env None (setopt metadata_options w)") auto
  with assms have res: "res \<noteq> CURLE_OK" by simp
  from perform_metadata[OF p] have "files w2 = files w" by simp
  then have "files (validate_cleanup
      (log_curl_download_error env ''Failed to download headers of'' src res w2)) = files w"
    by (simp add: cleanup_frame log_curl_download_error_def opkg_msg_def)
  with validate_failed_unfold[OF p res] show ?thesis by blast
qed

theorem validate_transport_failure_witness:
  "fst (perform_curl_request
          (example_env (failed_reply 22 ''The requested URL returned error: 404'') [] {}) None
          (setopt metadata_options (example_world cached_abc))) \<noteq> CURLE_OK
   \<and> (\<exists>w'. opkg_validate_cached_file
               (example_env (failed_reply 22 ''The requested URL returned error: 404'') [] {})
               ''http://host/pkg.gz'' ''pkg.gz'' (example_world cached_abc) = Returns (- 1, w')
           \<and> files w' = files (example_world cached_abc))"
proof -
  have h: "fst (perform_curl_request
          (example_env (failed_reply 22 ''The requested URL returned error: 404'') [] {}) None
          (setopt metadata_options (example_world cached_abc))) \<noteq> CURLE_OK"
    by code_simp
  from validate_transport_failure[OF h, of "''http://host/pkg.gz''" "''pkg.gz''"] h
  show ?thesis by blast
qed

lemma check_file_stamp_files:
  assumes "files wa = files wb"
  shows "(case check_file_stamp env c region wa of Returns (d, w') \<Rightarrow> d = 0 | Overread \<Rightarrow> False)
       = (case check_file_stamp env c region wb of Returns (d, w') \<Rightarrow> d = 0 | Overread \<Rightarrow> False)"
proof -
  have "fopen_rb env (stamp_path c) wa = fopen_rb env (stamp_path c) wb"
    using assms by (simp add: fopen_rb_def)
  moreover have "file_exists (stamp_path c) wa = file_exists (stamp_path c) wb"
    using assms by (simp add: file_exists_def)
  ultimately show ?thesis
    by (simp add: check_file_stamp_def Let_def split: option.splits outcome.splits)
qed

lemma cache_fresh_files:
  assumes "files wa = files wb"
  shows "cache_fresh env c etag wa = cache_fresh env c etag wb"
proof (cases etag)
  case None
  then show ?thesis by (simp add: cache_fresh_def)
next
  case (Some e)
  have "file_exists c wa = file_exists c wb" using assms by (simp add: file_exists_def)
  with Some check_file_stamp_files[OF assms, of env c "e @ NUL # heap_slack env"]
  show ?thesis by (simp add: cache_fresh_def)
qed

lemma stale_check_match:
  assumes "validate_stale_check env c etag w = Returns (m, w')"
  shows "(m = 1 \<longleftrightarrow> cache_fresh env c etag w)
       \<and> (m = 1 \<longrightarrow> files w' = files w \<and> files w c \<noteq> None)
       \<and> (m \<noteq> 1 \<longrightarrow> files w' c = None)"
  using assms
  by (auto simp: validate_stale_check_def cache_fresh_def unlink_def file_exists_def
      split: if_splits option.splits outcome.splits prod.splits
      dest!: check_file_stamp_frame)

lemma resume_arithmetic_returned:
  assumes p: "perform_curl_request env None (setopt metadata_options w) = (res, etag, w2)"
    and v: "opkg_validate_cached_file env src cache_location w = Returns (ret, w')"
  shows "(ret < 0 \<longleftrightarrow> res \<noteq> CURLE_OK \<or> cache_location \<in> no_write env)
       \<and> (res = CURLE_OK \<and> cache_location \<notin> no_write env \<longrightarrow>
            ftell_end cache_location w' = resume_length env cache_location etag w
          \<and> (if long_to_double (resume_length env cache_location etag w) < info_content_length w2
              then ret = 1
                 \<and> map_option opt_resume_from (curl w')
                     = Some (resume_length env cache_location etag w)
              else ret = 0))
       \<and> requests w' =
           requests w @ (case curl w of None \<Rightarrow> [] | Some h \<Rightarrow> [metadata_options h])
       \<and> (ret \<le> 0 \<longrightarrow>
            (\<forall>wb. curl (opkg_curl_init env wb) \<noteq> None
                  \<and> backend_prepare env src (opkg_curl_init env wb) = w \<longrightarrow>
                  opkg_download_backend env src cache_location True wb = Returns (ret, w')))"
proof -
  let ?L = "resume_length env cache_location etag w"
  have rq2: "requests w2 =
           requests w @ (case curl w of None \<Rightarrow> [] | Some h \<Rightarrow> [metadata_options h])"
    using p
    by (cases "curl w")
       (auto simp: perform_curl_request_def curl_easy_perform_def Let_def setopt_def)
  have backend: "ret \<le> 0 \<longrightarrow>
            (\<forall>wb. curl (opkg_curl_init env wb) \<noteq> None
                  \<and> backend_prepare env src (opkg_curl_init env wb) = w \<longrightarrow>
                  opkg_download_backend env src cache_location True wb = Returns (ret, w'))"
    using v by (auto simp: opkg_download_backend_def Let_def)
  show ?thesis
  proof (cases "res = CURLE_OK")
    case False
    from validate_failed_unfold[OF p False] v
    have "ret = - 1" and "w' = validate_cleanup
             (log_curl_download_error env ''Failed to download headers of'' src res w2)"
      by simp_all
    then show ?thesis using False backend rq2
      by (simp add: cleanup_frame log_curl_download_error_def opkg_msg_def)
  next
    case True
    from validate_ok_unfold[OF p True v] obtain m w3 w5 where
      s: "validate_stale_check env cache_location etag w2 = Returns (m, w3)" and
      r: "validate_resume env cache_location (info_content_length w2)
            (validate_stamp_write env cache_location etag m w3) = (ret, w5)" and
      w': "w' = validate_cleanup w5" by blast
    let ?w4 = "validate_stamp_write env cache_location etag m w3"
    from perform_metadata[OF p] True obtain h where h: "curl w = Some h" by auto
    from perform_metadata[OF p] have f2: "files w2 = files w" by simp
    from stale_check_frame[OF s]
    have q3: "requests w3 = requests w2" and c3: "curl w3 \<noteq> None"
      using perform_metadata[OF p] h by auto
    have fresh: "m = 1 \<longleftrightarrow> cache_fresh env cache_location etag w"
      using stale_check_match[OF s] cache_fresh_files[OF f2] by simp
    have f3: "files w3 cache_location =
                (if cache_fresh env cache_location etag w then files w cache_location else None)"
      and ex: "cache_fresh env cache_location etag w \<longrightarrow> files w cache_location \<noteq> None"
      using stale_check_match[OF s] fresh f2 by auto
    have f4: "files ?w4 cache_location = files w3 cache_location"
      and q4: "requests ?w4 = requests w3" and c4: "curl ?w4 \<noteq> None"
      using stamp_write_frame[of env cache_location etag m w3] stamp_path_neq[of cache_location] c3
      by auto
    from validate_resume_cases[OF r]
    have q5: "requests w5 = requests ?w4"
      and bad: "cache_location \<in> no_write env \<longrightarrow> ret = - 1"
      and good: "cache_location \<notin> no_write env \<longrightarrow>
            files w5 cache_location = Some (case files ?w4 cache_location of None \<Rightarrow> [] | Some x \<Rightarrow> x)
          \<and> (if long_to_double (ftell_end cache_location w5) < info_content_length w2
              then ret = 1 \<and> curl w5 = map_option (\<lambda>h. h\<lparr>opt_resume_from := ftell_end cache_location w5\<rparr>) (curl ?w4)
              else ret = 0 \<and> curl w5 = curl ?w4)"
      by blast+
    have req: "requests w' =
           requests w @ (case curl w of None \<Rightarrow> [] | Some h \<Rightarrow> [metadata_options h])"
      using q3 q4 q5 rq2 by (simp add: w' cleanup_frame)
    have neg: "ret < 0 \<longleftrightarrow> res \<noteq> CURLE_OK \<or> cache_location \<in> no_write env"
      using True bad good by (auto split: if_splits)
    have arith: "cache_location \<notin> no_write env \<longrightarrow>
            ftell_end cache_location w' = ?L
          \<and> (if long_to_double ?L < info_content_length w2
              then ret = 1 \<and> map_option opt_resume_from (curl w') = Some ?L
              else ret = 0)"
    proof
      assume nw: "cache_location \<notin> no_write env"
      from good nw have f5: "files w5 cache_location
          = Some (case files ?w4 cache_location of None \<Rightarrow> [] | Some x \<Rightarrow> x)"
        by simp
      have l: "ftell_end cache_location w5 = ?L"
        using f5 f4 f3 ex
        by (auto simp: ftell_end_def resume_length_def split: option.splits)
      from c4 obtain h4 where h4: "curl ?w4 = Some h4" by auto
      have "if long_to_double ?L < info_content_length w2
            then ret = 1 \<and> map_option opt_resume_from (curl w') = Some ?L
            else ret = 0"
        using good nw h4 unfolding l
        by (auto simp: w' cleanup_frame transfer_options_def split: if_splits)
      with l show "ftell_end cache_location w' = ?L
          \<and> (if long_to_double ?L < info_content_length w2
              then ret = 1 \<and> map_option opt_resume_from (curl w') = Some ?L
              else ret = 0)"
        by (simp add: w' ftell_end_cleanup)
    qed
    from neg arith req backend show ?thesis by blast
  qed
qed

lemma resume_length_bounds:
  "0 \<le> resume_length env c etag w"
  by (simp add: resume_length_def ftell_end_def split: option.splits)

text \<open>
  Claim C1, as amended. Let the header-only request return \<open>res\<close>, the marker
  \<open>etag\<close> (if any) and the reported size \<open>R = info_content_length w2\<close>. The local
  length \<open>L = resume_length env cache_location etag w\<close> is the length of the cache
  file found when the cache is fresh (the file exists, a marker was obtained and the
  stamp check returns 0), and 0 when there is no cache file or it is discarded as stale;
  it is the length the validator measures at lines 302-303. With enough readable memory
  behind the marker the validator returns; and whenever it returns, with \<open>ret\<close>:
  \<^item> \<open>ret\<close> is negative only when the request failed or the cache file could not be
    opened;
  \<^item> with a definite size \<open>R\<close> and \<open>L\<close> at most \<open>2 ^ 53\<close>, where the conversion of
    the offset to double in line 306 is exact: if \<open>L < R\<close> the result is 1 and the
    resume offset is \<open>L\<close>; if \<open>L \<ge> R\<close> the result is 0;
  \<^item> the validator performs the header-only request (which has \<^verbatim>\<open>CURLOPT_NOBODY\<close>
    set) and no other, and on a result \<open>\<le> 0\<close> \<^verbatim>\<open>opkg_download_backend\<close> returns it
    at once, with no transfer.
\<close>

theorem resume_arithmetic:
  assumes p: "perform_curl_request env None (setopt metadata_options w) = (res, etag, w2)"
  shows "(marker_slack_readable env \<longrightarrow>
            (\<exists>ret w'. opkg_validate_cached_file env src cache_location w = Returns (ret, w')))
       \<and> (\<forall>ret w'. opkg_validate_cached_file env src cache_location w = Returns (ret, w') \<longrightarrow>
            (ret < 0 \<longleftrightarrow> res \<noteq> CURLE_OK \<or> cache_location \<in> no_write env)
          \<and> (res = CURLE_OK \<and> cache_location \<notin> no_write env \<and> 0 \<le> info_content_length w2
              \<and> resume_length env cache_location etag w \<le> 2 ^ 53 \<longrightarrow>
               ftell_end cache_location w' = resume_length env cache_location etag w
             \<and> (if resume_length env cache_location etag w < info_content_length w2
                 then ret = 1
                    \<and> map_option opt_resume_from (curl w')
                        = Some (resume_length env cache_location etag w)
                 else ret = 0))
          \<and> requests w' =
              requests w @ (case curl w of None \<Rightarrow> [] | Some h \<Rightarrow> [metadata_options h])
          \<and> (ret \<le> 0 \<longrightarrow>
               (\<forall>wb. curl (opkg_curl_init env wb) \<noteq> None
                     \<and> backend_prepare env src (opkg_curl_init env wb) = w \<longrightarrow>
                     opkg_download_backend env src cache_location True wb = Returns (ret, w'))))"
proof (rule conjI)
  show "marker_slack_readable env \<longrightarrow>
          (\<exists>ret w'. opkg_validate_cached_file env src cache_location w = Returns (ret, w'))"
    using validate_returns by blast
next
  have exact: "resume_length env cache_location etag w \<le> 2 ^ 53 \<Longrightarrow>
      long_to_double (resume_length env cache_location etag w)
        = resume_length env cache_location etag w"
    by (rule long_to_double_exact[OF resume_length_bounds])
  show "\<forall>ret w'. opkg_validate_cached_file env src cache_location w = Returns (ret, w') \<longrightarrow>
            (ret < 0 \<longleftrightarrow> res \<noteq> CURLE_OK \<or> cache_location \<in> no_write env)
          \<and> (res = CURLE_OK \<and> cache_location \<notin> no_write env \<and> 0 \<le> info_content_length w2
              \<and> resume_length env cache_location etag w \<le> 2 ^ 53 \<longrightarrow>
               ftell_end cache_location w' = resume_length env cache_location etag w
             \<and> (if resume_length env cache_location etag w < info_content_length w2
                 then ret = 1
                    \<and> map_option opt_resume_from (curl w')
                        = Some (resume_length env cache_location etag w)
                 else ret = 0))
          \<and> requests w' =
              requests w @ (case curl w of None \<Rightarrow> [] | Some h \<Rightarrow> [metadata_options h])
          \<and> (ret \<le> 0 \<longrightarrow>
               (\<forall>wb. curl (opkg_curl_init env wb) \<noteq> None
                     \<and> backend_prepare env src (opkg_curl_init env wb) = w \<longrightarrow>
                     opkg_download_backend env src cache_location True wb = Returns (ret, w')))"
  proof (intro allI impI)
    fix ret w'
    assume v: "opkg_validate_cached_file env src cache_location w = Returns (ret, w')"
    from resume_arithmetic_returned[OF p v] exact
    show "(ret < 0 \<longleftrightarrow> res \<noteq> CURLE_OK \<or> cache_location \<in> no_write env)
          \<and> (res = CURLE_OK \<and> cache_location \<notin> no_write env \<and> 0 \<le> info_content_length w2
              \<and> resume_length env cache_location etag w \<le> 2 ^ 53 \<longrightarrow>
               ftell_end cache_location w' = resume_length env cache_location etag w
             \<and> (if resume_length env cache_location etag w < info_content_length w2
                 then ret = 1
                    \<and> map_option opt_resume_from (curl w')
                        = Some (resume_length env cache_location etag w)
                 else ret = 0))
          \<and> requests w' =
              requests w @ (case curl w of None \<Rightarrow> [] | Some h \<Rightarrow> [metadata_options h])
          \<and> (ret \<le> 0 \<longrightarrow>
               (\<forall>wb. curl (opkg_curl_init env wb) \<noteq> None
                     \<and> backend_prepare env src (opkg_curl_init env wb) = w \<longrightarrow>
                     opkg_download_backend env src cache_location True wb = Returns (ret, w')))"
      by (auto split: if_splits)
  qed
qed

theorem resume_arithmetic_witness:
  "\<exists>etag w2 w'.
     perform_curl_request (example_env (ok_reply (Some ''abc'') 1000) (replicate 16 NUL) {}) None
       (setopt metadata_options (example_world cached_abc)) = (CURLE_OK, etag, w2)
   \<and> opkg_validate_cached_file (example_env (ok_reply (Some ''abc'') 1000) (replicate 16 NUL) {})
       ''http://host/pkg.gz'' ''pkg.gz'' (example_world cached_abc) = Returns (1, w')
   \<and> marker_slack_readable (example_env (ok_reply (Some ''abc'') 1000) (replicate 16 NUL) {})
   \<and> info_content_length w2 = 1000
   \<and> resume_length (example_env (ok_reply (Some ''abc'') 1000) (replicate 16 NUL) {})
        ''pkg.gz'' etag (example_world cached_abc) = 4
   \<and> ftell_end ''pkg.gz'' w' = 4
   \<and> map_option opt_resume_from (curl w') = Some 4"
proof -
  let ?e = "example_env (ok_reply (Some ''abc'') 1000) (replicate 16 NUL) {}"
  let ?w = "example_world cached_abc"
  let ?p = "perform_curl_request ?e None (setopt metadata_options ?w)"
  let ?v = "opkg_validate_cached_file ?e ''http://host/pkg.gz'' ''pkg.gz'' ?w"
  have "fst ?p = CURLE_OK" by code_simp
  moreover have "info_content_length (snd (snd ?p)) = 1000" by code_simp
  moreover have "resume_length ?e ''pkg.gz'' (fst (snd ?p)) ?w = 4" by code_simp
  ultimately obtain etag w2 where p: "?p = (CURLE_OK, etag, w2)"
    and R: "info_content_length w2 = 1000"
    and L: "resume_length ?e ''pkg.gz'' etag ?w = 4"
    by (cases ?p) auto
  have "verdict ?v = Some 1" by code_simp
  then obtain w' where v: "?v = Returns (1, w')"
    by (auto simp: verdict_def split: outcome.splits)
  have nw: "''pkg.gz'' \<notin> no_write ?e" by (simp add: example_env_def)
  have sl: "marker_slack_readable ?e" by code_simp
  from resume_arithmetic[OF p, of "''http://host/pkg.gz''" "''pkg.gz''"] v nw R L
  have "ftell_end ''pkg.gz'' w' = 4 \<and> map_option opt_resume_from (curl w') = Some 4"
    by (auto split: if_splits)
  with p v R L sl show ?thesis by blast
qed

text \<open>
  Claim C1, as stated, fails when the cache file is stale: the cache file has four bytes
  and its stamp is \<open>abc\<close>, the remote marker is \<open>xyz\<close>. With a remote size of 1000
  the result is 1 with resume offset 0, not 4, and with a remote size of 4 the result is
  1 with offset 0, not 0 (complete): the validator has deleted the file before it
  measures.
\<close>

theorem resume_arithmetic_stale_counterexample:
  "files (example_world cached_abc) ''pkg.gz'' = Some ''0123''
   \<and> verdict (opkg_validate_cached_file (example_env (ok_reply (Some ''xyz'') 1000) [] {})
        ''http://host/pkg.gz'' ''pkg.gz'' (example_world cached_abc)) = Some 1
   \<and> resume_after (opkg_validate_cached_file (example_env (ok_reply (Some ''xyz'') 1000) [] {})
        ''http://host/pkg.gz'' ''pkg.gz'' (example_world cached_abc)) = Some 0
   \<and> verdict (opkg_validate_cached_file (example_env (ok_reply (Some ''xyz'') 4) [] {})
        ''http://host/pkg.gz'' ''pkg.gz'' (example_world cached_abc)) = Some 1
   \<and> resume_after (opkg_validate_cached_file (example_env (ok_reply (Some ''xyz'') 4) [] {})
        ''http://host/pkg.gz'' ''pkg.gz'' (example_world cached_abc)) = Some 0"
  by code_simp

subsection \<open>An unknown remote size\<close>

text \<open>
  With a negative remote size the comparison of line 306 always fails: whenever the
  header-only request succeeded and the cache file could be opened, the result is 0.
\<close>

lemma negative_size_gives_zero:
  assumes r: "validate_resume env c R w4 = (ret, w5)"
    and R: "R < 0" and nw: "c \<notin> no_write env"
  shows "ret = 0"
proof -
  have "0 \<le> ftell_end c w5" by (simp add: ftell_end_def split: option.splits)
  then have pos: "0 \<le> long_to_double (ftell_end c w5)" by (rule long_to_double_nonneg)
  from validate_resume_cases[OF r] nw
  have "if long_to_double (ftell_end c w5) < R then ret = 1 else ret = 0"
    by (simp split: if_splits)
  with pos R show ?thesis by (simp split: if_splits)
qed

lemma unknown_size_never_resumes:
  assumes p: "perform_curl_request env None (setopt metadata_options w) = (CURLE_OK, etag, w2)"
    and R: "info_content_length w2 < 0"
    and v: "opkg_validate_cached_file env src c w = Returns (ret, w')"
    and nw: "c \<notin> no_write env"
  shows "ret = 0"
proof -
  have ok: "CURLE_OK = CURLE_OK" by simp
  from validate_ok_unfold[OF p ok v] obtain m w3 w5 where
    s: "validate_stale_check env c etag w2 = Returns (m, w3)" and
    r: "validate_resume env c (info_content_length w2) (validate_stamp_write env c etag m w3)
          = (ret, w5)" and
    w': "w' = validate_cleanup w5" by blast
  from negative_size_gives_zero[OF r R nw] show ?thesis .
qed

text \<open>
  Claim C2 does not hold of the code. With the remote size unknown (-1), and no cache
  file, the comparison \<^verbatim>\<open>resume_from < src_size\<close> of line 306 is \<open>0 < -1\<close>: the
  validator returns 0, "file exists in cache and is completely downloaded" in the words
  of its own comment, and leaves the empty file that \<^verbatim>\<open>fopen\<close> created;
  \<^verbatim>\<open>opkg_download_backend\<close> then returns 0 after the header-only request alone. With a
  fresh cache file of four bytes the result is 0 as well, not a resume from 4.
\<close>

theorem unknown_size_reports_complete:
  "verdict (opkg_validate_cached_file (example_env (ok_reply (Some ''abc'') (- 1)) [] {})
      ''http://host/pkg.gz'' ''pkg.gz'' (example_world Map.empty)) = Some 0
   \<and> file_after ''pkg.gz''
       (opkg_validate_cached_file (example_env (ok_reply (Some ''abc'') (- 1)) [] {})
          ''http://host/pkg.gz'' ''pkg.gz'' (example_world Map.empty)) = Some []
   \<and> verdict (opkg_download_backend (example_env (ok_reply (Some ''abc'') (- 1)) [] {})
      ''http://host/pkg.gz'' ''pkg.gz'' True (example_world Map.empty)) = Some 0
   \<and> map opt_nobody
       (requests_after (opkg_download_backend (example_env (ok_reply (Some ''abc'') (- 1)) [] {})
          ''http://host/pkg.gz'' ''pkg.gz'' True (example_world Map.empty))) = [1]
   \<and> verdict (opkg_validate_cached_file
        (example_env (ok_reply (Some ''abc'') (- 1)) (replicate 16 NUL) {})
        ''http://host/pkg.gz'' ''pkg.gz'' (example_world cached_abc)) = Some 0
   \<and> file_after ''pkg.gz'' (opkg_validate_cached_file
        (example_env (ok_reply (Some ''abc'') (- 1)) (replicate 16 NUL) {})
        ''http://host/pkg.gz'' ''pkg.gz'' (example_world cached_abc)) = Some ''0123''"
  by code_simp

subsection \<open>Stale caches\<close>

lemma stale_check_absent_marker:
  "file_exists c w \<Longrightarrow> validate_stale_check env c None w = Returns (0, unlink c w)"
  by (simp add: validate_stale_check_def)

lemma stale_check_mismatch:
  assumes "file_exists c w"
    and "check_file_stamp env c (e @ NUL # heap_slack env) w = Returns (d, w3)"
    and "d \<noteq> 0"
  shows "validate_stale_check env c (Some e) w = Returns (0, unlink c w3)"
  using assms by (simp add: validate_stale_check_def)

lemma stamp_write_result:
  "files (validate_stamp_write env c (Some e) 0 w) (stamp_path c) =
     (if stamp_path c \<in> no_write env then files w (stamp_path c) else Some (cstr e))"
  by (simp add: validate_stamp_write_def create_file_stamp_def Let_def opkg_msg_def)

lemma stamp_write_none: "validate_stamp_write env c None m w = w"
  by (simp add: validate_stamp_write_def)

lemma resume_from_empty:
  assumes "files w c = None" and "curl w \<noteq> None"
    and "validate_resume env c R w = (ret, w5)"
  shows "files w5 c = (if c \<in> no_write env then None else Some [])
       \<and> (\<forall>p. p \<noteq> c \<longrightarrow> files w5 p = files w p)
       \<and> (c \<in> no_write env \<longrightarrow> ret = - 1)
       \<and> (c \<notin> no_write env \<and> 0 < R \<longrightarrow>
            ret = 1 \<and> map_option opt_resume_from (curl (validate_cleanup w5)) = Some 0)
       \<and> (c \<notin> no_write env \<and> R = 0 \<longrightarrow> ret = 0)"
  using assms
  by (auto simp: validate_resume_def fopen_ab_def fappend_def ftell_end_def Let_def
      setopt_def opkg_msg_def validate_cleanup_def transfer_options_def
      long_to_double_zero
      split: if_splits option.splits)

text \<open>
  Claim C5, as amended. Let the header-only request succeed with a marker \<open>e\<close>, let the
  cache file exist, and let the stamp check report a mismatch (\<open>d \<noteq> 0\<close>: the stamp
  file is missing, unreadable or different). Then, whatever the length of the cache file
  was: the file is deleted; the stamp file holds the marker afterwards unless it cannot
  be opened for writing, in which case it is as before; and when the cache file can be
  opened again it is empty, a positive remote size gives the result 1 with resume offset
  0 (a fetch from the start) and a remote size of 0 gives the result 0 (nothing to
  fetch). An unknown remote size is not covered here.
\<close>

theorem stale_cache_restarts:
  assumes p: "perform_curl_request env None (setopt metadata_options w) = (CURLE_OK, Some e, w2)"
    and ex: "file_exists cache_location w"
    and chk: "check_file_stamp env cache_location (e @ NUL # heap_slack env) w2 = Returns (d, w3)"
    and d: "d \<noteq> 0"
  shows "\<exists>ret w'.
      opkg_validate_cached_file env src cache_location w = Returns (ret, w')
    \<and> files w' cache_location = (if cache_location \<in> no_write env then None else Some [])
    \<and> files w' (stamp_path cache_location) =
        (if stamp_path cache_location \<in> no_write env
         then files w (stamp_path cache_location) else Some e)
    \<and> (cache_location \<in> no_write env \<longrightarrow> ret = - 1)
    \<and> (cache_location \<notin> no_write env \<and> 0 < info_content_length w2 \<longrightarrow>
          ret = 1 \<and> map_option opt_resume_from (curl w') = Some 0)
    \<and> (cache_location \<notin> no_write env \<and> info_content_length w2 = 0 \<longrightarrow> ret = 0)"
proof -
  from perform_metadata[OF p] have f2: "files w2 = files w" and c2: "curl w2 \<noteq> None"
    by (auto simp: CURLE_OK_def)
  from ex f2 have ex2: "file_exists cache_location w2" by (simp add: file_exists_def)
  from stale_check_mismatch[OF ex2 chk d]
  have s: "validate_stale_check env cache_location (Some e) w2
             = Returns (0, unlink cache_location w3)" .
  let ?w4 = "validate_stamp_write env cache_location (Some e) 0 (unlink cache_location w3)"
  obtain ret w5 where
    r: "validate_resume env cache_location (info_content_length w2) ?w4 = (ret, w5)"
    by (cases "validate_resume env cache_location (info_content_length w2) ?w4") auto
  from check_file_stamp_frame[OF chk] f2 c2
  have f3: "files w3 = files w" and c3: "curl w3 \<noteq> None" by simp_all
  have f4: "files ?w4 cache_location = None"
    using stamp_write_frame[of env cache_location "Some e" 0 "unlink cache_location w3"]
      stamp_path_neq[of cache_location]
    by (auto simp: unlink_def)
  have c4: "curl ?w4 \<noteq> None"
    using stamp_write_frame[of env cache_location "Some e" 0 "unlink cache_location w3"] c3
    by (simp add: unlink_def)
  have s4: "files ?w4 (stamp_path cache_location) =
        (if stamp_path cache_location \<in> no_write env
         then files w (stamp_path cache_location) else Some e)"
    using stamp_path_neq[of cache_location] f3 cstr_id[OF perform_marker_no_NUL[OF p]]
    by (simp add: stamp_write_result unlink_def)
  from resume_from_empty[OF f4 c4 r] s4 stamp_path_neq[of cache_location]
  have "files (validate_cleanup w5) cache_location
          = (if cache_location \<in> no_write env then None else Some [])
    \<and> files (validate_cleanup w5) (stamp_path cache_location) =
        (if stamp_path cache_location \<in> no_write env
         then files w (stamp_path cache_location) else Some e)
    \<and> (cache_location \<in> no_write env \<longrightarrow> ret = - 1)
    \<and> (cache_location \<notin> no_write env \<and> 0 < info_content_length w2 \<longrightarrow>
          ret = 1 \<and> map_option opt_resume_from (curl (validate_cleanup w5)) = Some 0)
    \<and> (cache_location \<notin> no_write env \<and> info_content_length w2 = 0 \<longrightarrow> ret = 0)"
    by (simp add: cleanup_frame)
  with validate_ok_fold[OF p s r] show ?thesis by blast
qed

theorem stale_cache_restarts_witness:
  "\<exists>w2 d w3 w'.
     perform_curl_request (example_env (ok_reply (Some ''xyz'') 1000) [] {}) None
       (setopt metadata_options (example_world cached_abc)) = (CURLE_OK, Some ''xyz'', w2)
   \<and> file_exists ''pkg.gz'' (example_world cached_abc)
   \<and> check_file_stamp (example_env (ok_reply (Some ''xyz'') 1000) [] {}) ''pkg.gz''
        (''xyz'' @ NUL # heap_slack (example_env (ok_reply (Some ''xyz'') 1000) [] {})) w2
        = Returns (d, w3)
   \<and> d \<noteq> 0
   \<and> opkg_validate_cached_file (example_env (ok_reply (Some ''xyz'') 1000) [] {})
        ''http://host/pkg.gz'' ''pkg.gz'' (example_world cached_abc) = Returns (1, w')
   \<and> files w' ''pkg.gz'' = Some []
   \<and> files w' (stamp_path ''pkg.gz'') = Some ''xyz''
   \<and> map_option opt_resume_from (curl w') = Some 0"
proof -
  let ?e = "example_env (ok_reply (Some ''xyz'') 1000) [] {}"
  let ?w = "example_world cached_abc"
  let ?p = "perform_curl_request ?e None (setopt metadata_options ?w)"
  let ?c = "check_file_stamp ?e ''pkg.gz'' (''xyz'' @ NUL # heap_slack ?e) (snd (snd ?p))"
  have "fst ?p = CURLE_OK" by code_simp
  moreover have "fst (snd ?p) = Some ''xyz''" by code_simp
  moreover have "info_content_length (snd (snd ?p)) = 1000" by code_simp
  ultimately obtain w2 where p: "?p = (CURLE_OK, Some ''xyz'', w2)"
    and R: "info_content_length w2 = 1000"
    by (cases ?p) auto
  have ex: "file_exists ''pkg.gz'' ?w" by code_simp
  have "verdict ?c = Some 1" by code_simp
  then obtain w3 where chk: "check_file_stamp ?e ''pkg.gz'' (''xyz'' @ NUL # heap_slack ?e) w2
      = Returns (1, w3)"
    using p by (auto simp: verdict_def split: outcome.splits)
  have d: "(1::int) \<noteq> 0" by simp
  have nw: "''pkg.gz'' \<notin> no_write ?e" "stamp_path ''pkg.gz'' \<notin> no_write ?e"
    by (simp_all add: example_env_def)
  from stale_cache_restarts[OF p ex chk d, of "''http://host/pkg.gz''"] nw R
  obtain w' where "opkg_validate_cached_file ?e ''http://host/pkg.gz'' ''pkg.gz'' ?w = Returns (1, w')"
    and "files w' ''pkg.gz'' = Some []"
    and "files w' (stamp_path ''pkg.gz'') = Some ''xyz''"
    and "map_option opt_resume_from (curl w') = Some 0"
    by auto
  with p ex chk d show ?thesis by blast
qed

text \<open>
  Claim C5, as stated, fails for an empty remote file: the cache file (four bytes, stamp
  \<open>abc\<close>) is stale against the marker \<open>xyz\<close>, it is deleted and the stamp is
  rewritten, but with a remote size of 0 the result is 0 (complete), not a fetch from
  offset 0.
\<close>

theorem stale_cache_empty_remote_counterexample:
  "file_exists ''pkg.gz'' (example_world cached_abc)
   \<and> files (example_world cached_abc) ''pkg.gz.@stamp'' = Some ''abc''
   \<and> fst (snd (perform_curl_request (example_env (ok_reply (Some ''xyz'') 0) [] {}) None
        (setopt metadata_options (example_world cached_abc)))) = Some ''xyz''
   \<and> verdict (opkg_validate_cached_file (example_env (ok_reply (Some ''xyz'') 0) [] {})
        ''http://host/pkg.gz'' ''pkg.gz'' (example_world cached_abc)) = Some 0
   \<and> file_after ''pkg.gz'' (opkg_validate_cached_file (example_env (ok_reply (Some ''xyz'') 0) [] {})
        ''http://host/pkg.gz'' ''pkg.gz'' (example_world cached_abc)) = Some []
   \<and> file_after ''pkg.gz.@stamp''
        (opkg_validate_cached_file (example_env (ok_reply (Some ''xyz'') 0) [] {})
        ''http://host/pkg.gz'' ''pkg.gz'' (example_world cached_abc)) = Some ''xyz''"
  by code_simp

text \<open>
  Claim C6, as amended. When the cache file exists and the response carries no marker,
  the condition \<^verbatim>\<open>etag && ...\<close> of line 285 fails and the \<^verbatim>\<open>else\<close> branch unlinks the
  cache file: the cache is treated as stale. No stamp is written (no other file
  changes), and the resume arithmetic runs over the empty file that \<^verbatim>\<open>fopen\<close>
  creates: result 1 with offset 0 for a positive remote size, result 0 for size 0.
\<close>

theorem absent_marker_discards_cache:
  assumes p: "perform_curl_request env None (setopt metadata_options w) = (CURLE_OK, None, w2)"
    and ex: "file_exists cache_location w"
  shows "\<exists>ret w'.
      opkg_validate_cached_file env src cache_location w = Returns (ret, w')
    \<and> files w' cache_location = (if cache_location \<in> no_write env then None else Some [])
    \<and> (\<forall>p. p \<noteq> cache_location \<longrightarrow> files w' p = files w p)
    \<and> (cache_location \<in> no_write env \<longrightarrow> ret = - 1)
    \<and> (cache_location \<notin> no_write env \<and> 0 < info_content_length w2 \<longrightarrow>
          ret = 1 \<and> map_option opt_resume_from (curl w') = Some 0)
    \<and> (cache_location \<notin> no_write env \<and> info_content_length w2 = 0 \<longrightarrow> ret = 0)"
proof -
  from perform_metadata[OF p] have f2: "files w2 = files w" and c2: "curl w2 \<noteq> None"
    by (auto simp: CURLE_OK_def)
  from ex f2 have ex2: "file_exists cache_location w2" by (simp add: file_exists_def)
  have s: "validate_stale_check env cache_location None w2
             = Returns (0, unlink cache_location w2)"
    by (rule stale_check_absent_marker[OF ex2])
  let ?w4 = "validate_stamp_write env cache_location None 0 (unlink cache_location w2)"
  have w4: "?w4 = unlink cache_location w2" by (rule stamp_write_none)
  obtain ret w5 where
    r: "validate_resume env cache_location (info_content_length w2) ?w4 = (ret, w5)"
    by (cases "validate_resume env cache_location (info_content_length w2) ?w4") auto
  have f4: "files ?w4 cache_location = None" and c4: "curl ?w4 \<noteq> None"
    and o4: "\<forall>p. p \<noteq> cache_location \<longrightarrow> files ?w4 p = files w p"
    using c2 f2 by (simp_all add: stamp_write_none unlink_def)
  from resume_from_empty[OF f4 c4 r] o4
  have "files (validate_cleanup w5) cache_location
          = (if cache_location \<in> no_write env then None else Some [])
    \<and> (\<forall>p. p \<noteq> cache_location \<longrightarrow> files (validate_cleanup w5) p = files w p)
    \<and> (cache_location \<in> no_write env \<longrightarrow> ret = - 1)
    \<and> (cache_location \<notin> no_write env \<and> 0 < info_content_length w2 \<longrightarrow>
          ret = 1 \<and> map_option opt_resume_from (curl (validate_cleanup w5)) = Some 0)
    \<and> (cache_location \<notin> no_write env \<and> info_content_length w2 = 0 \<longrightarrow> ret = 0)"
    by (simp add: cleanup_frame)
  with validate_ok_fold[OF p s r] show ?thesis by blast
qed

theorem absent_marker_discards_cache_witness:
  "\<exists>w2 w'.
     perform_curl_request (example_env (ok_reply None 1000) [] {}) None
       (setopt metadata_options (example_world cached_abc)) = (CURLE_OK, None, w2)
   \<and> file_exists ''pkg.gz'' (example_world cached_abc)
   \<and> opkg_validate_cached_file (example_env (ok_reply None 1000) [] {})
        ''http://host/pkg.gz'' ''pkg.gz'' (example_world cached_abc) = Returns (1, w')
   \<and> files w' ''pkg.gz'' = Some []
   \<and> files w' ''pkg.gz.@stamp'' = Some ''abc''
   \<and> map_option opt_resume_from (curl w') = Some 0"
proof -
  let ?e = "example_env (ok_reply None 1000) [] {}"
  let ?w = "example_world cached_abc"
  let ?p = "perform_curl_request ?e None (setopt metadata_options ?w)"
  have "fst ?p = CURLE_OK" by code_simp
  moreover have "fst (snd ?p) = None" by code_simp
  moreover have "info_content_length (snd (snd ?p)) = 1000" by code_simp
  ultimately obtain w2 where p: "?p = (CURLE_OK, None, w2)"
    and R: "info_content_length w2 = 1000"
    by (cases ?p) auto
  have ex: "file_exists ''pkg.gz'' ?w" by code_simp
  have nw: "''pkg.gz'' \<notin> no_write ?e" by (simp add: example_env_def)
  have st: "files ?w ''pkg.gz.@stamp'' = Some ''abc''" by code_simp
  from absent_marker_discards_cache[OF p ex, of "''http://host/pkg.gz''"] nw R st
  obtain w' where "opkg_validate_cached_file ?e ''http://host/pkg.gz'' ''pkg.gz'' ?w = Returns (1, w')"
    and "files w' ''pkg.gz'' = Some []"
    and "files w' ''pkg.gz.@stamp'' = Some ''abc''"
    and "map_option opt_resume_from (curl w') = Some 0"
    by auto
  with p ex show ?thesis by blast
qed

text \<open>
  Claim C6, as stated, fails: with a cache file of four bytes and a response without a
  marker, the cache file is deleted (it is empty afterwards) and the resume offset is 0,
  not 4.
\<close>

theorem absent_marker_keeps_cache_counterexample:
  "files (example_world cached_abc) ''pkg.gz'' = Some ''0123''
   \<and> fst (snd (perform_curl_request (example_env (ok_reply None 1000) [] {}) None
        (setopt metadata_options (example_world cached_abc)))) = None
   \<and> verdict (opkg_validate_cached_file (example_env (ok_reply None 1000) [] {})
        ''http://host/pkg.gz'' ''pkg.gz'' (example_world cached_abc)) = Some 1
   \<and> file_after ''pkg.gz'' (opkg_validate_cached_file (example_env (ok_reply None 1000) [] {})
        ''http://host/pkg.gz'' ''pkg.gz'' (example_world cached_abc)) = Some []
   \<and> resume_after (opkg_validate_cached_file (example_env (ok_reply None 1000) [] {})
        ''http://host/pkg.gz'' ''pkg.gz'' (example_world cached_abc)) = Some 0"
  by code_simp

subsection \<open>A failed stamp write\<close>

lemma perform_no_write:
  "perform_curl_request (env\<lparr>no_write := X\<rparr>) etag w = perform_curl_request env etag w"
  by (simp add: perform_curl_request_def curl_easy_perform_def split: option.splits)

lemma check_no_write:
  "check_file_stamp (env\<lparr>no_write := X\<rparr>) c region w = check_file_stamp env c region w"
proof -
  have "fopen_rb (env\<lparr>no_write := X\<rparr>) = fopen_rb env"
    by (intro ext) (simp add: fopen_rb_def)
  then show ?thesis
    by (simp add: check_file_stamp_def Let_def split: option.splits outcome.splits)
qed

lemma stale_check_no_write:
  "validate_stale_check (env\<lparr>no_write := X\<rparr>) c etag w = validate_stale_check env c etag w"
  by (simp add: validate_stale_check_def check_no_write split: option.splits)

lemma resume_agrees:
  assumes "files wa c = files wb c" and "curl wa = curl wb"
    and "c \<in> no_write ea \<longleftrightarrow> c \<in> no_write eb"
  shows "fst (validate_resume ea c R wa) = fst (validate_resume eb c R wb)
       \<and> curl (snd (validate_resume ea c R wa)) = curl (snd (validate_resume eb c R wb))
       \<and> files (snd (validate_resume ea c R wa)) c = files (snd (validate_resume eb c R wb)) c
       \<and> (\<forall>p. p \<noteq> c \<longrightarrow> files (snd (validate_resume ea c R wa)) p = files wa p)
       \<and> (\<forall>p. p \<noteq> c \<longrightarrow> files (snd (validate_resume eb c R wb)) p = files wb p)
       \<and> set (msgs wa) \<subseteq> set (msgs (snd (validate_resume ea c R wa)))"
  using assms
  by (auto simp: validate_resume_def fopen_ab_def fappend_def ftell_end_def Let_def
      setopt_def opkg_msg_def split: option.splits)

text \<open>
  Claim C7. Let the header-only request succeed with a marker \<open>e\<close> and the cache not
  be fresh (\<^verbatim>\<open>match\<close> is 0 after lines 283-289). Compare the run in which the stamp
  file cannot be opened for writing with the run in which it can, everything else being
  equal: both return, with the same result, the same handle (so the same resume offset)
  and the same cache file. In the first the failure is logged and the stamp file is
  left as it was; in the second the stamp file holds the marker.
\<close>

theorem stamp_write_failure_not_fatal:
  assumes p: "perform_curl_request env None (setopt metadata_options w) = (CURLE_OK, Some e, w2)"
    and s: "validate_stale_check env cache_location (Some e) w2 = Returns (0, w3)"
  shows "\<exists>ret wa wb.
      opkg_validate_cached_file
        (env\<lparr>no_write := insert (stamp_path cache_location) (no_write env)\<rparr>)
        src cache_location w = Returns (ret, wa)
    \<and> opkg_validate_cached_file
        (env\<lparr>no_write := no_write env - {stamp_path cache_location}\<rparr>)
        src cache_location w = Returns (ret, wb)
    \<and> curl wa = curl wb
    \<and> files wa cache_location = files wb cache_location
    \<and> files wa (stamp_path cache_location) = files w3 (stamp_path cache_location)
    \<and> files wb (stamp_path cache_location) = Some e
    \<and> (ERROR, ''Failed to create stamp for '' @ cache_location @ ''.'' @ [newline])
        \<in> set (msgs wa)"
proof -
  let ?sp = "stamp_path cache_location"
  let ?eb = "env\<lparr>no_write := insert ?sp (no_write env)\<rparr>"
  let ?eo = "env\<lparr>no_write := no_write env - {?sp}\<rparr>"
  let ?R = "info_content_length w2"
  let ?w4b = "validate_stamp_write ?eb cache_location (Some e) 0 w3"
  let ?w4o = "validate_stamp_write ?eo cache_location (Some e) 0 w3"
  have pb: "perform_curl_request ?eb None (setopt metadata_options w) = (CURLE_OK, Some e, w2)"
    and po: "perform_curl_request ?eo None (setopt metadata_options w) = (CURLE_OK, Some e, w2)"
    using p by (simp_all add: perform_no_write)
  have sb: "validate_stale_check ?eb cache_location (Some e) w2 = Returns (0, w3)"
    and so: "validate_stale_check ?eo cache_location (Some e) w2 = Returns (0, w3)"
    using s by (simp_all add: stale_check_no_write)
  have ne: "cache_location \<noteq> ?sp" using stamp_path_neq[of cache_location] by simp
  have fb: "files ?w4b = files w3" and cb: "curl ?w4b = curl w3"
    and mb: "(ERROR, ''Failed to create stamp for '' @ cache_location @ ''.'' @ [newline])
               \<in> set (msgs ?w4b)"
    by (simp_all add: validate_stamp_write_def create_file_stamp_def Let_def opkg_msg_def)
  have fo: "files ?w4o = (files w3)(?sp \<mapsto> e)" and co: "curl ?w4o = curl w3"
    using cstr_id[OF perform_marker_no_NUL[OF p]]
    by (simp_all add: validate_stamp_write_def create_file_stamp_def Let_def)
  have same: "files ?w4b cache_location = files ?w4o cache_location"
    using ne by (simp add: fb fo)
  have nw: "cache_location \<in> no_write ?eb \<longleftrightarrow> cache_location \<in> no_write ?eo"
    using ne by auto
  obtain ret w5b where
    rb: "validate_resume ?eb cache_location ?R ?w4b = (ret, w5b)"
    by (cases "validate_resume ?eb cache_location ?R ?w4b") auto
  obtain ret' w5o where
    ro: "validate_resume ?eo cache_location ?R ?w4o = (ret', w5o)"
    by (cases "validate_resume ?eo cache_location ?R ?w4o") auto
  from resume_agrees[OF same _ nw, of ?R] cb co rb ro
  have eq: "ret = ret'" and c5: "curl w5b = curl w5o"
    and f5: "files w5b cache_location = files w5o cache_location"
    and sb5: "files w5b ?sp = files ?w4b ?sp"
    and so5: "files w5o ?sp = files ?w4o ?sp"
    and m5: "set (msgs ?w4b) \<subseteq> set (msgs w5b)"
    using ne by auto
  have va: "opkg_validate_cached_file ?eb src cache_location w = Returns (ret, validate_cleanup w5b)"
    by (rule validate_ok_fold[OF pb sb rb])
  have vb: "opkg_validate_cached_file ?eo src cache_location w = Returns (ret, validate_cleanup w5o)"
    using validate_ok_fold[OF po so ro] eq by simp
  have "curl (validate_cleanup w5b) = curl (validate_cleanup w5o)"
    and "files (validate_cleanup w5b) cache_location = files (validate_cleanup w5o) cache_location"
    and "files (validate_cleanup w5b) ?sp = files w3 ?sp"
    and "files (validate_cleanup w5o) ?sp = Some e"
    and "(ERROR, ''Failed to create stamp for '' @ cache_location @ ''.'' @ [newline])
           \<in> set (msgs (validate_cleanup w5b))"
    using c5 f5 sb5 so5 m5 mb by (auto simp: cleanup_frame fb fo)
  with va vb show ?thesis by blast
qed

theorem stamp_write_failure_not_fatal_witness:
  "\<exists>w2 w3 ret wa wb.
     perform_curl_request (example_env (ok_reply (Some ''xyz'') 1000) [] {}) None
       (setopt metadata_options (example_world cached_abc)) = (CURLE_OK, Some ''xyz'', w2)
   \<and> validate_stale_check (example_env (ok_reply (Some ''xyz'') 1000) [] {}) ''pkg.gz''
        (Some ''xyz'') w2 = Returns (0, w3)
   \<and> opkg_validate_cached_file
        ((example_env (ok_reply (Some ''xyz'') 1000) [] {})
           \<lparr>no_write := insert (stamp_path ''pkg.gz'')
              (no_write (example_env (ok_reply (Some ''xyz'') 1000) [] {}))\<rparr>)
        ''http://host/pkg.gz'' ''pkg.gz'' (example_world cached_abc) = Returns (ret, wa)
   \<and> opkg_validate_cached_file
        ((example_env (ok_reply (Some ''xyz'') 1000) [] {})
           \<lparr>no_write := no_write (example_env (ok_reply (Some ''xyz'') 1000) [] {})
              - {stamp_path ''pkg.gz''}\<rparr>)
        ''http://host/pkg.gz'' ''pkg.gz'' (example_world cached_abc) = Returns (ret, wb)
   \<and> curl wa = curl wb
   \<and> files wa ''pkg.gz'' = files wb ''pkg.gz''
   \<and> files wb (stamp_path ''pkg.gz'') = Some ''xyz''
   \<and> (ERROR, ''Failed to create stamp for '' @ ''pkg.gz'' @ ''.'' @ [newline]) \<in> set (msgs wa)"
proof -
  let ?e = "example_env (ok_reply (Some ''xyz'') 1000) [] {}"
  let ?w = "example_world cached_abc"
  let ?p = "perform_curl_request ?e None (setopt metadata_options ?w)"
  let ?s = "validate_stale_check ?e ''pkg.gz'' (Some ''xyz'') (snd (snd ?p))"
  have "fst ?p = CURLE_OK" by code_simp
  moreover have "fst (snd ?p) = Some ''xyz''" by code_simp
  ultimately obtain w2 where p: "?p = (CURLE_OK, Some ''xyz'', w2)"
    by (cases ?p) auto
  have "verdict ?s = Some 0" by code_simp
  then obtain w3 where s: "validate_stale_check ?e ''pkg.gz'' (Some ''xyz'') w2 = Returns (0, w3)"
    using p by (auto simp: verdict_def split: outcome.splits)
  from stamp_write_failure_not_fatal[OF p s, of "''http://host/pkg.gz''"] p s
  show ?thesis by blast
qed

subsection \<open>The handle after validation\<close>

lemma validate_handle_after:
  assumes v: "opkg_validate_cached_file env src cache_location w = Returns (ret, w')"
    and h: "curl w = Some h"
  shows "(ret = - 1 \<or> ret = 0 \<or> ret = 1)
       \<and> curl w' = Some ((transfer_options h)
            \<lparr>opt_resume_from :=
               (if ret = 1 then ftell_end cache_location w' else opt_resume_from h)\<rparr>)"
proof -
  obtain res etag w2 where
    p: "perform_curl_request env None (setopt metadata_options w) = (res, etag, w2)"
    by (cases "perform_curl_request env None (setopt metadata_options w)") auto
  from perform_metadata[OF p] h have c2: "curl w2 = Some (metadata_options h)" by simp
  show ?thesis
  proof (cases "res = CURLE_OK")
    case False
    from validate_failed_unfold[OF p False] v
    have "ret = - 1" and "w' = validate_cleanup
             (log_curl_download_error env ''Failed to download headers of'' src res w2)"
      by simp_all
    then show ?thesis using c2
      by (simp add: cleanup_frame log_curl_download_error_def opkg_msg_def transfer_metadata
          transfer_resume_same)
  next
    case True
    from validate_ok_unfold[OF p True v] obtain m w3 w5 where
      s: "validate_stale_check env cache_location etag w2 = Returns (m, w3)" and
      r: "validate_resume env cache_location (info_content_length w2)
            (validate_stamp_write env cache_location etag m w3) = (ret, w5)" and
      w': "w' = validate_cleanup w5" by blast
    from stale_check_frame[OF s] c2 have c3: "curl w3 = Some (metadata_options h)" by simp
    then have c4: "curl (validate_stamp_write env cache_location etag m w3) = Some (metadata_options h)"
      by (simp add: stamp_write_frame)
    from validate_resume_cases[OF r] c4 show ?thesis
      unfolding w'
      by (cases "cache_location \<in> no_write env")
         (auto simp: cleanup_frame ftell_end_cleanup transfer_metadata transfer_resume
            transfer_resume_same split: if_splits)
  qed
qed

lemma validate_without_handle:
  assumes v: "opkg_validate_cached_file env src cache_location w = Returns (ret, w')"
    and h: "curl w = None"
  shows "curl w' = None"
proof -
  obtain res etag w2 where
    p: "perform_curl_request env None (setopt metadata_options w) = (res, etag, w2)"
    by (cases "perform_curl_request env None (setopt metadata_options w)") auto
  from perform_metadata[OF p] h have r: "res \<noteq> CURLE_OK" and c2: "curl w2 = None" by auto
  have "opkg_validate_cached_file env src cache_location w =
           Returns (- 1, validate_cleanup
             (log_curl_download_error env ''Failed to download headers of'' src res w2))"
    by (rule validate_failed_unfold[OF p r])
  with v have "w' = validate_cleanup
             (log_curl_download_error env ''Failed to download headers of'' src res w2)"
    by simp
  then show ?thesis using c2
    by (simp add: cleanup_frame log_curl_download_error_def opkg_msg_def)
qed

lemma transfer_state_after: "body_transfer_state ((transfer_options h)\<lparr>opt_resume_from := x\<rparr>)"
  by (simp add: body_transfer_state_def transfer_options_def)

lemma transfer_state_id: "body_transfer_state h \<Longrightarrow> transfer_options h = h"
  by (simp add: body_transfer_state_def transfer_options_def)

lemma validate_resets_handle_returned:
  assumes v: "opkg_validate_cached_file env src cache_location w = Returns (ret, w')"
    and h: "curl w = Some h"
  shows "\<exists>h'. curl w' = Some h'
       \<and> (ret = - 1 \<or> ret = 0 \<or> ret = 1)
       \<and> body_transfer_state h'
       \<and> opt_url h' = opt_url h \<and> opt_writedata h' = opt_writedata h
       \<and> opt_resume_from h' =
            (if ret = 1 then ftell_end cache_location w' else opt_resume_from h)
       \<and> (body_transfer_state h \<longrightarrow> h' = h\<lparr>opt_resume_from := opt_resume_from h'\<rparr>)"
proof -
  let ?x = "if ret = 1 then ftell_end cache_location w' else opt_resume_from h"
  let ?h' = "(transfer_options h)\<lparr>opt_resume_from := ?x\<rparr>"
  from validate_handle_after[OF v h]
  have r: "ret = - 1 \<or> ret = 0 \<or> ret = 1" and c: "curl w' = Some ?h'" by simp_all
  have "body_transfer_state ?h'" by (rule transfer_state_after)
  moreover have "opt_url ?h' = opt_url h \<and> opt_writedata ?h' = opt_writedata h"
    by (simp add: transfer_options_def)
  moreover have "opt_resume_from ?h' = ?x" by simp
  moreover have "body_transfer_state h \<longrightarrow> ?h' = h\<lparr>opt_resume_from := opt_resume_from ?h'\<rparr>"
    by (simp add: transfer_state_id)
  ultimately show ?thesis using r c by blast
qed

text \<open>
  Claim C10. With enough readable memory behind the marker the validator returns; and
  whenever it returns, whether with -1 (transport failure or the cache file cannot be
  opened), 0 (complete) or 1 (resume), the five options of the header-only request are
  back at their body-transfer values, the URL and the write data are as before, and the
  resume offset is set (to the length of the cache file) exactly when the result is 1.
  So a handle that was in its body-transfer state before validation differs after it in
  the resume offset only.
\<close>

theorem validate_resets_handle:
  assumes h: "curl w = Some h"
  shows "(marker_slack_readable env \<longrightarrow>
            (\<exists>ret w'. opkg_validate_cached_file env src cache_location w = Returns (ret, w')))
       \<and> (\<forall>ret w'. opkg_validate_cached_file env src cache_location w = Returns (ret, w') \<longrightarrow>
            (\<exists>h'. curl w' = Some h'
               \<and> (ret = - 1 \<or> ret = 0 \<or> ret = 1)
               \<and> body_transfer_state h'
               \<and> opt_url h' = opt_url h \<and> opt_writedata h' = opt_writedata h
               \<and> opt_resume_from h' =
                    (if ret = 1 then ftell_end cache_location w' else opt_resume_from h)
               \<and> (body_transfer_state h \<longrightarrow> h' = h\<lparr>opt_resume_from := opt_resume_from h'\<rparr>)))"
proof (rule conjI)
  show "marker_slack_readable env \<longrightarrow>
          (\<exists>ret w'. opkg_validate_cached_file env src cache_location w = Returns (ret, w'))"
    using validate_returns by blast
next
  show "\<forall>ret w'. opkg_validate_cached_file env src cache_location w = Returns (ret, w') \<longrightarrow>
            (\<exists>h'. curl w' = Some h'
               \<and> (ret = - 1 \<or> ret = 0 \<or> ret = 1)
               \<and> body_transfer_state h'
               \<and> opt_url h' = opt_url h \<and> opt_writedata h' = opt_writedata h
               \<and> opt_resume_from h' =
                    (if ret = 1 then ftell_end cache_location w' else opt_resume_from h)
               \<and> (body_transfer_state h \<longrightarrow> h' = h\<lparr>opt_resume_from := opt_resume_from h'\<rparr>))"
    by (intro allI impI) (rule validate_resets_handle_returned[OF _ h])
qed

theorem validate_resets_handle_witness:
  "\<exists>ret w'.
     opkg_validate_cached_file (example_env (ok_reply (Some ''abc'') 1000) (replicate 16 NUL) {})
       ''http://host/pkg.gz'' ''pkg.gz'' (example_world cached_abc) = Returns (ret, w')
   \<and> curl (example_world cached_abc) = Some fresh_handle
   \<and> marker_slack_readable (example_env (ok_reply (Some ''abc'') 1000) (replicate 16 NUL) {})
   \<and> ret = 1
   \<and> curl w' = Some (fresh_handle\<lparr>opt_resume_from := 4\<rparr>)"
proof -
  let ?v = "opkg_validate_cached_file
              (example_env (ok_reply (Some ''abc'') 1000) (replicate 16 NUL) {})
              ''http://host/pkg.gz'' ''pkg.gz'' (example_world cached_abc)"
  have r: "verdict ?v = Some 1"
    by code_simp
  have f: "file_after ''pkg.gz'' ?v = Some ''0123''"
    by code_simp
  from r obtain w' where v: "?v = Returns (1, w')"
    by (auto simp: verdict_def split: outcome.splits)
  have h: "curl (example_world cached_abc) = Some fresh_handle"
    by (simp add: example_world_def)
  from f v have l: "ftell_end ''pkg.gz'' w' = 4"
    by (simp add: file_after_def ftell_end_def)
  have d: "body_transfer_state fresh_handle"
    by (simp add: fresh_handle_def body_transfer_state_def)
  from validate_resets_handle[OF h, of "example_env (ok_reply (Some ''abc'') 1000) (replicate 16 NUL) {}"
      "''http://host/pkg.gz''" "''pkg.gz''"] v d obtain h' where
    "curl w' = Some h'" and "opt_resume_from h' = (if (1::int) = 1 then ftell_end ''pkg.gz'' w'
        else opt_resume_from fresh_handle)"
    and "h' = fresh_handle\<lparr>opt_resume_from := opt_resume_from h'\<rparr>"
    by blast
  with l have "curl w' = Some (fresh_handle\<lparr>opt_resume_from := 4\<rparr>)" by simp
  moreover have "marker_slack_readable
      (example_env (ok_reply (Some ''abc'') 1000) (replicate 16 NUL) {})" by code_simp
  ultimately show ?thesis using v h by blast
qed

text \<open>
  The handle is in its body-transfer state whenever the validator is called: a new
  handle is, and \<^verbatim>\<open>opkg_download_backend\<close> leaves it so.
\<close>

lemma backend_transfer_curl:
  assumes "backend_transfer env src dest w = (ret, w')"
  shows "curl w' = curl w \<or> curl w' = map_option (\<lambda>h. h\<lparr>opt_writedata := Some dest\<rparr>) (curl w)"
  using assms
  by (auto simp: backend_transfer_def fopen_ab_def setopt_def opkg_msg_def
      perform_curl_request_def curl_easy_perform_def log_curl_download_error_def Let_def
      split: option.splits if_splits prod.splits)

lemma backend_keeps_transfer_state:
  assumes inv: "\<forall>h. curl w = Some h \<longrightarrow> body_transfer_state h"
    and run: "opkg_download_backend env src dest use_cache w = Returns (ret, w')"
  shows "\<forall>h. curl w' = Some h \<longrightarrow> body_transfer_state h"
proof -
  let ?w0 = "opkg_curl_init env w"
  let ?w2 = "backend_prepare env src ?w0"
  have i0: "\<forall>h. curl ?w0 = Some h \<longrightarrow> body_transfer_state h"
    using inv by (auto simp: opkg_curl_init_def fresh_handle_def body_transfer_state_def
        split: option.splits if_splits)
  have i2: "\<forall>h. curl ?w2 = Some h \<longrightarrow> body_transfer_state h"
    using i0 by (auto simp: backend_prepare_def setopt_def body_transfer_state_def Let_def
        split: if_splits)
  have tr: "\<forall>h. curl wb = Some h \<longrightarrow> body_transfer_state h"
    if a: "\<forall>h. curl wa = Some h \<longrightarrow> body_transfer_state h"
      and b: "backend_transfer env src dest wa = (r, wb)" for wa wb r
    using backend_transfer_curl[OF b] a by (auto simp: body_transfer_state_def)
  show ?thesis
  proof (cases "curl ?w0 = None")
    case True
    with run have "w' = ?w0" by (simp add: opkg_download_backend_def Let_def)
    with i0 show ?thesis by simp
  next
    case False
    show ?thesis
    proof (cases use_cache)
      case nocache: False
      from run False nocache
      have b: "backend_transfer env src dest (unlink dest ?w2) = (ret, w')"
        by (simp add: opkg_download_backend_def Let_def)
      have "\<forall>h. curl (unlink dest ?w2) = Some h \<longrightarrow> body_transfer_state h"
        using i2 by (simp add: unlink_def)
      from tr[OF this b] show ?thesis .
    next
      case True
      from run False True obtain r3 w3 where
        v: "opkg_validate_cached_file env src dest ?w2 = Returns (r3, w3)"
        and rest: "(if r3 \<le> 0 then Returns (r3, w3) else Returns (backend_transfer env src dest w3))
                     = Returns (ret, w')"
        by (auto simp: opkg_download_backend_def Let_def split: outcome.splits)
      have i3: "\<forall>h. curl w3 = Some h \<longrightarrow> body_transfer_state h"
      proof (cases "curl ?w2")
        case None
        from validate_without_handle[OF v None] show ?thesis by simp
      next
        case (Some h2)
        from validate_handle_after[OF v Some] show ?thesis
          by (auto simp: transfer_state_after)
      qed
      show ?thesis
      proof (cases "r3 \<le> 0")
        case True
        with rest have "w' = w3" by simp
        with i3 show ?thesis by simp
      next
        case False
        with rest have "backend_transfer env src dest w3 = (ret, w')" by simp
        from tr[OF i3 this] show ?thesis .
      qed
    qed
  qed
qed

subsection \<open>The composed error message\<close>

lemma one_newline_snoc:
  "ends_with_one_newline (xs @ [newline]) \<longleftrightarrow> (xs = [] \<or> last xs \<noteq> newline)"
  by (simp add: ends_with_one_newline_def)

lemma two_newlines_snoc:
  "ends_with_two_newlines (ys @ [newline]) \<longleftrightarrow> (ys \<noteq> [] \<and> last ys = newline)"
  by (cases ys) (auto simp: ends_with_two_newlines_def)

text \<open>
  Claim C8, as amended. The message is the caller's text, the URL and then the
  transport's detail buffer when that is not empty, libcurl's generic description of the
  result code otherwise; a newline is appended unless the buffer is not empty and
  already ends in one. The message is what \<^verbatim>\<open>log_curl_download_error\<close> logs, and it
  always ends in a newline. It ends in exactly one newline if and only if the buffer
  does not end in two newlines and, when the buffer is empty, the generic description
  does not itself end in a newline.
\<close>

theorem error_text_composition:
  "curl_download_error_text env msg src_url res w =
      msg @ '' '' @ src_url @ '': ''
      @ (if curl_errorbuffer w \<noteq> [] then curl_errorbuffer w else curl_easy_strerror env res)
      @ (if curl_errorbuffer w \<noteq> [] \<and> last (curl_errorbuffer w) = newline then [] else [newline])
   \<and> msgs (log_curl_download_error env msg src_url res w) =
        msgs w @ [(ERROR, curl_download_error_text env msg src_url res w)]
   \<and> last (curl_download_error_text env msg src_url res w) = newline
   \<and> (ends_with_one_newline (curl_download_error_text env msg src_url res w) \<longleftrightarrow>
        \<not> ends_with_two_newlines (curl_errorbuffer w)
        \<and> \<not> (curl_errorbuffer w = [] \<and> curl_easy_strerror env res \<noteq> []
              \<and> last (curl_easy_strerror env res) = newline))"
proof -
  let ?b = "curl_errorbuffer w"
  let ?g = "curl_easy_strerror env res"
  let ?t = "curl_download_error_text env msg src_url res w"
  define P where "P = msg @ '' '' @ src_url @ '': ''"
  have Plast: "last P = CHR '' ''" and Pne: "P \<noteq> []" by (simp_all add: P_def)
  have nl: "CHR '' '' \<noteq> newline" by (simp add: newline_def)
  have lastP: "\<And>xs. last (P @ xs) \<noteq> newline \<longleftrightarrow> \<not> (xs \<noteq> [] \<and> last xs = newline)"
    using Plast nl Pne by (simp add: last_append)
  have text_eq: "?t = P @ (if ?b \<noteq> [] then ?b else ?g)
      @ (if ?b \<noteq> [] \<and> last ?b = newline then [] else [newline])"
    by (auto simp: curl_download_error_text_def Let_def last_conv_nth P_def)
  have lg: "msgs (log_curl_download_error env msg src_url res w) = msgs w @ [(ERROR, ?t)]"
    by (simp add: log_curl_download_error_def opkg_msg_def)
  have lst: "last ?t = newline"
    unfolding text_eq by auto
  have one: "ends_with_one_newline ?t \<longleftrightarrow>
        \<not> ends_with_two_newlines ?b \<and> \<not> (?b = [] \<and> ?g \<noteq> [] \<and> last ?g = newline)"
  proof (cases "?b = []")
    case True
    then have t: "?t = (P @ ?g) @ [newline]" by (simp add: text_eq)
    have "ends_with_one_newline ?t \<longleftrightarrow> (P @ ?g = [] \<or> last (P @ ?g) \<noteq> newline)"
      unfolding t by (rule one_newline_snoc)
    also have "\<dots> \<longleftrightarrow> \<not> (?g \<noteq> [] \<and> last ?g = newline)"
      using Pne lastP[of ?g] by simp
    finally show ?thesis using True by (simp add: ends_with_two_newlines_def)
  next
    case False
    show ?thesis
    proof (cases "last ?b = newline")
      case nlb: False
      with False have t: "?t = (P @ ?b) @ [newline]" by (simp add: text_eq)
      have "ends_with_one_newline ?t \<longleftrightarrow> (P @ ?b = [] \<or> last (P @ ?b) \<noteq> newline)"
        unfolding t by (rule one_newline_snoc)
      also have "\<dots>" using Pne lastP[of ?b] nlb by simp
      finally show ?thesis using False nlb by (simp add: ends_with_two_newlines_def)
    next
      case nlb: True
      from False obtain ys where ys: "?b = ys @ [newline]"
        using nlb by (metis append_butlast_last_id)
      have t: "?t = (P @ ys) @ [newline]" using False nlb ys by (simp add: text_eq)
      have "ends_with_one_newline ?t \<longleftrightarrow> (P @ ys = [] \<or> last (P @ ys) \<noteq> newline)"
        unfolding t by (rule one_newline_snoc)
      also have "\<dots> \<longleftrightarrow> \<not> (ys \<noteq> [] \<and> last ys = newline)"
        using Pne lastP[of ys] by simp
      also have "\<dots> \<longleftrightarrow> \<not> ends_with_two_newlines ?b"
        unfolding ys by (simp add: two_newlines_snoc)
      finally show ?thesis using False by simp
    qed
  qed
  from text_eq lg lst one show ?thesis unfolding P_def by simp
qed

text \<open>
  Claim C8, as stated, fails for a detail buffer that ends in two newlines: nothing is
  appended and nothing is removed, so the message ends in two newlines. The last
  conjunct is the same message as the validator logs it after a failed header-only
  request.
\<close>

theorem error_text_two_newlines_counterexample:
  "curl_download_error_text (example_env (failed_reply 22 []) [] {})
     ''Failed to download'' ''http://host/pkg.gz'' 22
     ((example_world Map.empty)\<lparr>curl_errorbuffer := ''Access denied: 530'' @ [newline, newline]\<rparr>)
     = ''Failed to download http://host/pkg.gz: Access denied: 530'' @ [newline, newline]
   \<and> \<not> ends_with_one_newline
        (curl_download_error_text (example_env (failed_reply 22 []) [] {})
           ''Failed to download'' ''http://host/pkg.gz'' 22
           ((example_world Map.empty)
              \<lparr>curl_errorbuffer := ''Access denied: 530'' @ [newline, newline]\<rparr>))
   \<and> msgs_after (opkg_validate_cached_file
         (example_env (failed_reply 22 (''Access denied: 530'' @ [newline, newline])) [] {})
         ''http://host/pkg.gz'' ''pkg.gz'' (example_world Map.empty))
     = [(ERROR, ''Failed to download headers of http://host/pkg.gz: Access denied: 530''
                @ [newline, newline])]"
  by code_simp

end
